theory Spec2Isabelle
  imports Main "HOL-Library.Sublist" "HOL-Library.Multiset"
begin

section \<open>JavaScript values and string primitives\<close>

text \<open>
  Strings are lists of code units below 256 (\<open>string\<close>). Identifier fields typed
  \<open>number | string\<close> in the source are values of \<open>jsval\<close>; the numbers the platform
  sends as identifiers are integers, and \<open>String\<close> prints them in decimal.
\<close>

datatype jsval = Undefined | Null | Num int | Str string

text \<open>\<open>a ?? b\<close>: the right operand is taken only when the left one is undefined or null.\<close>

fun nullish :: "jsval \<Rightarrow> bool" where
  "nullish Undefined = True"
| "nullish Null = True"
| "nullish (Num n) = False"
| "nullish (Str s) = False"

definition coalesce :: "jsval \<Rightarrow> jsval \<Rightarrow> jsval" where
  "coalesce a b = (if nullish a then b else a)"

text \<open>A field typed \<open>string\<close> that may be absent is a \<open>string option\<close>.\<close>

fun of_opt :: "string option \<Rightarrow> jsval" where
  "of_opt None = Undefined"
| "of_opt (Some s) = Str s"

fun digit_char :: "nat \<Rightarrow> char" where
  "digit_char n = ''0123456789'' ! n"

fun string_of_nat :: "nat \<Rightarrow> string" where
  "string_of_nat n =
     (if n < 10 then [digit_char n] else string_of_nat (n div 10) @ [digit_char (n mod 10)])"

declare string_of_nat.simps [simp del]

definition string_of_int :: "int \<Rightarrow> string" where
  "string_of_int i = (if i < 0 then CHR ''-'' # string_of_nat (nat (- i)) else string_of_nat (nat i))"

text \<open>\<open>String(value)\<close>.\<close>

fun js_String :: "jsval \<Rightarrow> string" where
  "js_String Undefined = ''undefined''"
| "js_String Null = ''null''"
| "js_String (Num n) = string_of_int n"
| "js_String (Str s) = s"

text \<open>
  The white space of \<open>String.prototype.trim\<close> and of the regular expression class
  \<open>\s\<close>, among the code units below 256: TAB, LF, VT, FF, CR, SP and NBSP.
\<close>

definition is_ws :: "char \<Rightarrow> bool" where
  "is_ws c = (c \<in> set [CHR 0x09, CHR 0x0A, CHR 0x0B, CHR 0x0C, CHR 0x0D, CHR 0x20, CHR 0xA0])"

definition trim :: "string \<Rightarrow> string" where
  "trim s = rev (dropWhile is_ws (rev (dropWhile is_ws s)))"

section \<open>api/filters: the identifier normalizer\<close>

text \<open>
  \<^verbatim>\<open>
  export function toId(value?: number | string): string | null {
    if (value === undefined || value === null) return null;
    const text = String(value).trim();
    return text.length > 0 ? text : null;
  }
  \<close>
\<close>

definition toId :: "jsval \<Rightarrow> string option" where
  "toId v =
     (if v = Undefined \<or> v = Null then None
      else (let text = trim (js_String v) in if length text > 0 then Some text else None))"

section \<open>api/filters: environments and the lookup maps\<close>

text \<open>
  \<^verbatim>\<open>
  export type Environment = { id?: number | string; uuid?: string; name?: string;
                              project_id?: number | string; project_uuid?: string; };
  export type Project = { id?: number | string; uuid?: string; name?: string;
                          environments?: Environment[]; };
  export type ProjectEnvironment = Environment & { projectId?: string; projectName?: string;
                                                   projectUuid?: string; };
  \<close>
  Record fields are global names, so each record's fields carry a prefix where the source
  reuses \<open>id\<close>, \<open>uuid\<close> and \<open>name\<close>.
\<close>

record Environment =
  env_id :: jsval
  env_uuid :: "string option"
  env_name :: "string option"
  project_id :: jsval
  project_uuid :: "string option"

record Project =
  proj_id :: jsval
  proj_uuid :: "string option"
  proj_name :: "string option"
  environments :: "Environment list option"

record ProjectEnvironment = Environment +
  projectId :: "string option"
  projectName :: "string option"
  projectUuid :: "string option"

text \<open>
  \<^verbatim>\<open>
  for (const project of projects) {
    const projectId = toId(project.id ?? project.uuid);
    const projectUuid = project.uuid ? String(project.uuid) : undefined;
    const projectName = project.name ?? "Unnamed Project";
    for (const environment of project.environments ?? []) {
      items.push({ ...environment,
        projectId: projectId ?? toId(environment.project_id ?? environment.project_uuid) ?? undefined,
        projectName, projectUuid });
    }
  }
  \<close>
  The object pushed by the inner loop is \<open>attachProject\<close>; one turn of the outer loop,
  with the three values it computes for its project, is \<open>flattenProject\<close>.
\<close>

definition attachProject ::
  "string option \<Rightarrow> string \<Rightarrow> string option \<Rightarrow> Environment \<Rightarrow> ProjectEnvironment" where
  "attachProject projectId' projectName' projectUuid' environment =
     \<lparr> env_id = env_id environment, env_uuid = env_uuid environment,
       env_name = env_name environment, project_id = project_id environment,
       project_uuid = project_uuid environment,
       projectId = (case projectId' of
                      Some p \<Rightarrow> Some p
                    | None \<Rightarrow> toId (coalesce (project_id environment)
                                              (of_opt (project_uuid environment)))),
       projectName = Some projectName',
       projectUuid = projectUuid' \<rparr>"

definition flattenProject :: "Project \<Rightarrow> ProjectEnvironment list" where
  "flattenProject project =
     (let projectId' = toId (coalesce (proj_id project) (of_opt (proj_uuid project)));
          projectUuid' = (case proj_uuid project of
                            None \<Rightarrow> None
                          | Some u \<Rightarrow> if u = [] then None else Some u);
          projectName' = (case proj_name project of None \<Rightarrow> ''Unnamed Project'' | Some n \<Rightarrow> n)
      in map (attachProject projectId' projectName' projectUuid')
             (case environments project of None \<Rightarrow> [] | Some es \<Rightarrow> es))"

fun flattenEnvironments :: "Project list \<Rightarrow> ProjectEnvironment list" where
  "flattenEnvironments [] = []"
| "flattenEnvironments (project # projects) = flattenProject project @ flattenEnvironments projects"

text \<open>
  api/client.ts, \<open>fetchProjectEnvironments\<close>: the project id it attaches to each environment
  it fetched under a project,
  \<^verbatim>\<open>
  projectId: project.id ? String(project.id) : project.uuid,
  \<close>
  where a number is truthy when it is not zero and a string when it is not empty.
\<close>

fun truthy_val :: "jsval \<Rightarrow> bool" where
  "truthy_val Undefined = False"
| "truthy_val Null = False"
| "truthy_val (Num n) = (n \<noteq> 0)"
| "truthy_val (Str s) = (s \<noteq> [])"

definition fetchProjectEnvironments_projectId :: "Project \<Rightarrow> string option" where
  "fetchProjectEnvironments_projectId project =
     (if truthy_val (proj_id project) then Some (js_String (proj_id project))
      else proj_uuid project)"

text \<open>\<open>if (key) map.set(key, value)\<close>, for a key that \<open>toId\<close> returned.\<close>

fun set_if :: "string option \<Rightarrow> 'v \<Rightarrow> (string \<rightharpoonup> 'v) \<Rightarrow> (string \<rightharpoonup> 'v)" where
  "set_if None v m = m"
| "set_if (Some k) v m = m(k \<mapsto> v)"

text \<open>
  \<^verbatim>\<open>
  for (const env of envs) {
    const projectId = toId(env.projectId ?? env.project_uuid ?? env.project_id);
    if (!projectId) continue;
    const envId = toId(env.id);
    const envUuid = toId(env.uuid);
    if (envId) map.set(envId, projectId);
    if (envUuid) map.set(envUuid, projectId);
  }
  \<close>
\<close>

definition envProjectId :: "ProjectEnvironment \<Rightarrow> string option" where
  "envProjectId env =
     toId (coalesce (coalesce (of_opt (projectId env)) (of_opt (project_uuid env))) (project_id env))"

definition envToProject_step ::
  "(string \<rightharpoonup> string) \<Rightarrow> ProjectEnvironment \<Rightarrow> (string \<rightharpoonup> string)" where
  "envToProject_step m env =
     (case envProjectId env of
        None \<Rightarrow> m
      | Some p \<Rightarrow> set_if (toId (of_opt (env_uuid env))) p (set_if (toId (env_id env)) p m))"

definition buildEnvToProjectMap :: "ProjectEnvironment list \<Rightarrow> (string \<rightharpoonup> string)" where
  "buildEnvToProjectMap envs = foldl envToProject_step Map.empty envs"

text \<open>
  \<^verbatim>\<open>
  for (const env of envs) {
    const name = env.name ?? "Unnamed Environment";
    const envId = toId(env.id);
    const envUuid = toId(env.uuid);
    if (envId) map.set(envId, name);
    if (envUuid) map.set(envUuid, name);
  }
  \<close>
\<close>

definition envDisplayName :: "ProjectEnvironment \<Rightarrow> string" where
  "envDisplayName env = (case env_name env of None \<Rightarrow> ''Unnamed Environment'' | Some n \<Rightarrow> n)"

definition envName_step ::
  "(string \<rightharpoonup> string) \<Rightarrow> ProjectEnvironment \<Rightarrow> (string \<rightharpoonup> string)" where
  "envName_step m env =
     set_if (toId (of_opt (env_uuid env))) (envDisplayName env)
       (set_if (toId (env_id env)) (envDisplayName env) m)"

definition buildEnvNameMap :: "ProjectEnvironment list \<Rightarrow> (string \<rightharpoonup> string)" where
  "buildEnvNameMap envs = foldl envName_step Map.empty envs"

text \<open>
  \<^verbatim>\<open>
  for (const env of envs) {
    const envId = toId(env.id);
    const envUuid = toId(env.uuid);
    if (envId) map.set(envId, env);
    if (envUuid) map.set(envUuid, env);
  }
  \<close>
\<close>

definition envLookup_step ::
  "(string \<rightharpoonup> ProjectEnvironment) \<Rightarrow> ProjectEnvironment \<Rightarrow> (string \<rightharpoonup> ProjectEnvironment)" where
  "envLookup_step m env =
     set_if (toId (of_opt (env_uuid env))) env (set_if (toId (env_id env)) env m)"

definition buildEnvLookup :: "ProjectEnvironment list \<Rightarrow> (string \<rightharpoonup> ProjectEnvironment)" where
  "buildEnvLookup envs = foldl envLookup_step Map.empty envs"

text \<open>
  \<^verbatim>\<open>
  for (const env of envs) {
    const name = env.name ?? "Unnamed Environment";
    const set = map.get(name) ?? new Set<string>();
    const envId = toId(env.id);
    const envUuid = toId(env.uuid);
    if (envId) set.add(envId);
    if (envUuid) set.add(envUuid);
    if (set.size === 0) continue;
    map.set(name, set);
  }
  \<close>
  A set taken from the map is the map's own object, and it is stored back under the same
  name, so adding to it in place and storing the enlarged set are the same update.
\<close>

fun add_if :: "string option \<Rightarrow> string set \<Rightarrow> string set" where
  "add_if None s = s"
| "add_if (Some k) s = insert k s"

definition envNameToIds_step ::
  "(string \<rightharpoonup> string set) \<Rightarrow> ProjectEnvironment \<Rightarrow> (string \<rightharpoonup> string set)" where
  "envNameToIds_step m env =
     (let name = envDisplayName env;
          s0 = (case m name of None \<Rightarrow> {} | Some s \<Rightarrow> s);
          s1 = add_if (toId (of_opt (env_uuid env))) (add_if (toId (env_id env)) s0)
      in if s1 = {} then m else m(name \<mapsto> s1))"

definition buildEnvNameToIdsMap :: "ProjectEnvironment list \<Rightarrow> (string \<rightharpoonup> string set)" where
  "buildEnvNameToIdsMap envs = foldl envNameToIds_step Map.empty envs"

text \<open>The keys under which an environment is registered: its normalized id and uuid.\<close>

definition env_keys :: "ProjectEnvironment \<Rightarrow> string set" where
  "env_keys env = set_option (toId (env_id env)) \<union> set_option (toId (of_opt (env_uuid env)))"

section \<open>String helpers of the filters and URL builders\<close>

text \<open>
  \<open>s.startsWith(p)\<close> is \<open>prefix p s\<close>. \<open>s.replace(p, "")\<close> with a string pattern removes
  the first occurrence of \<open>p\<close>, searching from the left.
\<close>

fun remove_first :: "string \<Rightarrow> string \<Rightarrow> string" where
  "remove_first pat [] = []"
| "remove_first pat (c # cs) =
     (if prefix pat (c # cs) then drop (length pat) (c # cs) else c # remove_first pat cs)"

text \<open>
  \<open>s.replace(/\/+$/, "")\<close>: the match is searched from the left; at a position it
  succeeds when what remains is a non-empty run of slashes up to the end.
\<close>

definition is_slash :: "char \<Rightarrow> bool" where
  "is_slash c = (c = CHR ''/'')"

fun strip_trailing_slashes :: "string \<Rightarrow> string" where
  "strip_trailing_slashes [] = []"
| "strip_trailing_slashes (c # cs) =
     (if list_all is_slash (c # cs) then [] else c # strip_trailing_slashes cs)"

text \<open>\<open>s.split(d)\<close> for a one-character separator; the empty string splits into one empty token.\<close>

fun split_on :: "char \<Rightarrow> string \<Rightarrow> string list" where
  "split_on d [] = [[]]"
| "split_on d (c # cs) =
     (if c = d then [] # split_on d cs
      else (case split_on d cs of [] \<Rightarrow> [[c]] | t # ts \<Rightarrow> (c # t) # ts))"

text \<open>\<open>toLowerCase\<close> on code units below 256: A to Z, and the Latin-1 capitals.\<close>

definition to_lower_char :: "char \<Rightarrow> char" where
  "to_lower_char c =
     (let n = (of_char c :: nat)
      in if (65 \<le> n \<and> n \<le> 90) \<or> (192 \<le> n \<and> n \<le> 222 \<and> n \<noteq> 215) then char_of (n + 32) else c)"

definition toLowerCase :: "string \<Rightarrow> string" where
  "toLowerCase s = map to_lower_char s"

text \<open>\<open>s.replace(/X+/g, "_")\<close> for a character class X: every maximal run becomes one underscore.\<close>

function replace_runs :: "(char \<Rightarrow> bool) \<Rightarrow> string \<Rightarrow> string" where
  "replace_runs P [] = []"
| "replace_runs P (c # cs) =
     (if P c then CHR ''_'' # replace_runs P (dropWhile P cs) else c # replace_runs P cs)"
  by pat_completeness auto
termination
  by (relation "measure (\<lambda>(P, s). length s)") (auto simp: length_dropWhile_le less_Suc_eq_le)

text \<open>A string that may be absent, read with \<open>?? ""\<close>.\<close>

fun or_empty :: "string option \<Rightarrow> string" where
  "or_empty None = []"
| "or_empty (Some s) = s"

text \<open>Truthiness of an optional string: present and not empty.\<close>

fun truthy_str :: "string option \<Rightarrow> bool" where
  "truthy_str None = False"
| "truthy_str (Some s) = (s \<noteq> [])"

section \<open>lib/resources and the list commands: records\<close>

datatype ResourceType = TApplication | TService | TDatabase

fun type_name :: "ResourceType \<Rightarrow> string" where
  "type_name TApplication = ''application''"
| "type_name TService = ''service''"
| "type_name TDatabase = ''database''"

record ResourceItem =
  res_id :: string
  res_uuid :: "string option"
  res_type :: ResourceType
  res_name :: string
  res_subtitle :: "string option"
  environmentId :: "string option"
  res_repo :: "string option"
  res_kind :: "string option"
  res_url :: "string option"
  res_status :: "string option"

record Application =
  app_id :: jsval
  app_uuid :: "string option"
  app_name :: "string option"
  app_fqdn :: "string option"
  app_git_repository :: "string option"
  app_git_branch :: "string option"
  app_environment_id :: jsval
  app_environment_uuid :: "string option"
  app_status :: "string option"
  app_deployment_status :: "string option"
  app_last_deployment_status :: "string option"

record Service =
  svc_id :: jsval
  svc_uuid :: "string option"
  svc_name :: "string option"
  svc_description :: "string option"
  svc_environment_id :: jsval
  svc_environment_uuid :: "string option"
  svc_service_type :: "string option"

record Database =
  db_id :: jsval
  db_uuid :: "string option"
  db_name :: "string option"
  db_description :: "string option"
  db_environment_id :: jsval
  db_environment_uuid :: "string option"
  db_db_type :: "string option"

text \<open>The deployment record, without its \<open>logs\<close> field (typed \<open>unknown\<close>, read by no filter).\<close>

record Deployment =
  dep_id :: jsval
  dep_deployment_uuid :: "string option"
  dep_status :: "string option"
  dep_application_id :: jsval
  dep_application_uuid :: "string option"
  dep_application_name :: "string option"
  dep_name :: "string option"
  dep_deployment_url :: "string option"
  dep_commit_message :: "string option"
  dep_commit :: "string option"
  dep_created_at :: "string option"
  dep_updated_at :: "string option"
  dep_source_app_uuid :: "string option"
  dep_environment_id :: jsval
  dep_environment_uuid :: "string option"
  dep_server_name :: "string option"
  dep_git_type :: "string option"
  dep_git_repository :: "string option"
  dep_repo_url :: "string option"
  dep_pull_request_url :: "string option"
  dep_pull_request_id :: jsval

section \<open>The filter engine\<close>

text \<open>
  search-resources.tsx:
  \<^verbatim>\<open>
  if (filterValue === "all") return items;
  if (filterValue.startsWith("project:")) {
    const projectId = filterValue.replace("project:", "");
    return items.filter((item) => {
      const envId = item.environmentId ?? "";
      return envToProjectMap.get(envId) === projectId; });
  }
  if (filterValue.startsWith("env:")) {
    const envName = filterValue.replace("env:", "");
    const envIds = envNameToIds.get(envName);
    if (!envIds) return [];
    return items.filter((item) => envIds.has(item.environmentId ?? ""));
  }
  if (filterValue.startsWith("type:")) {
    const type = filterValue.replace("type:", "") as ResourceType;
    return items.filter((item) => item.type === type);
  }
  return items;
  \<close>
\<close>

definition applyFilter_resources ::
  "ResourceItem list \<Rightarrow> string \<Rightarrow> (string \<rightharpoonup> string) \<Rightarrow> (string \<rightharpoonup> string set)
     \<Rightarrow> ResourceItem list" where
  "applyFilter_resources items filterValue envToProjectMap envNameToIds =
     (if filterValue = ''all'' then items
      else if prefix ''project:'' filterValue then
        (let projectId = remove_first ''project:'' filterValue
         in filter (\<lambda>item. envToProjectMap (or_empty (environmentId item)) = Some projectId) items)
      else if prefix ''env:'' filterValue then
        (let envName = remove_first ''env:'' filterValue
         in case envNameToIds envName of
              None \<Rightarrow> []
            | Some envIds \<Rightarrow> filter (\<lambda>item. or_empty (environmentId item) \<in> envIds) items)
      else if prefix ''type:'' filterValue then
        (let type = remove_first ''type:'' filterValue
         in filter (\<lambda>item. type_name (res_type item) = type) items)
      else items)"

text \<open>
  search-databases.tsx (search-services.tsx has the same body over services):
  \<^verbatim>\<open>
  if (filterValue === "all") return items;
  if (filterValue.startsWith("env:")) {
    const envName = filterValue.replace("env:", "");
    const envIds = envNameToIds.get(envName);
    if (!envIds) return [];
    return items.filter((item) => envIds.has(String(item.environment_id ?? "")));
  }
  if (filterValue.startsWith("project:")) {
    const projectId = filterValue.replace("project:", "");
    return items.filter((item) => {
      const envId = String(item.environment_id ?? "");
      return envToProjectMap.get(envId) === projectId; });
  }
  return items;
  \<close>
\<close>

definition env_id_string :: "jsval \<Rightarrow> string" where
  "env_id_string environment_id = js_String (coalesce environment_id (Str []))"

definition applyFilter_databases ::
  "Database list \<Rightarrow> string \<Rightarrow> (string \<rightharpoonup> string) \<Rightarrow> (string \<rightharpoonup> string set)
     \<Rightarrow> Database list" where
  "applyFilter_databases items filterValue envToProjectMap envNameToIds =
     (if filterValue = ''all'' then items
      else if prefix ''env:'' filterValue then
        (let envName = remove_first ''env:'' filterValue
         in case envNameToIds envName of
              None \<Rightarrow> []
            | Some envIds \<Rightarrow>
                filter (\<lambda>item. env_id_string (db_environment_id item) \<in> envIds) items)
      else if prefix ''project:'' filterValue then
        (let projectId = remove_first ''project:'' filterValue
         in filter (\<lambda>item. envToProjectMap (env_id_string (db_environment_id item))
                            = Some projectId) items)
      else items)"

definition applyFilter_services ::
  "Service list \<Rightarrow> string \<Rightarrow> (string \<rightharpoonup> string) \<Rightarrow> (string \<rightharpoonup> string set)
     \<Rightarrow> Service list" where
  "applyFilter_services items filterValue envToProjectMap envNameToIds =
     (if filterValue = ''all'' then items
      else if prefix ''env:'' filterValue then
        (let envName = remove_first ''env:'' filterValue
         in case envNameToIds envName of
              None \<Rightarrow> []
            | Some envIds \<Rightarrow>
                filter (\<lambda>item. env_id_string (svc_environment_id item) \<in> envIds) items)
      else if prefix ''project:'' filterValue then
        (let projectId = remove_first ''project:'' filterValue
         in filter (\<lambda>item. envToProjectMap (env_id_string (svc_environment_id item))
                            = Some projectId) items)
      else items)"

text \<open>
  search-applications.tsx: as for databases, with one more parameter and one more line in
  the project branch:
  \<^verbatim>\<open>
  if (filterValue.startsWith("project:")) {
    if (!hasEnvMapping) return items;
    ...
  \<close>
  The caller passes \<open>hasEnvMapping = envToProjectMap.size > 0\<close>.
\<close>

definition applyFilter_applications ::
  "Application list \<Rightarrow> string \<Rightarrow> (string \<rightharpoonup> string) \<Rightarrow> bool \<Rightarrow> (string \<rightharpoonup> string set)
     \<Rightarrow> Application list" where
  "applyFilter_applications items filterValue envToProjectMap hasEnvMapping envNameToIds =
     (if filterValue = ''all'' then items
      else if prefix ''env:'' filterValue then
        (let envName = remove_first ''env:'' filterValue
         in case envNameToIds envName of
              None \<Rightarrow> []
            | Some envIds \<Rightarrow>
                filter (\<lambda>item. env_id_string (app_environment_id item) \<in> envIds) items)
      else if prefix ''project:'' filterValue then
        (if \<not> hasEnvMapping then items
         else (let projectId = remove_first ''project:'' filterValue
               in filter (\<lambda>item. envToProjectMap (env_id_string (app_environment_id item))
                                  = Some projectId) items))
      else items)"

text \<open>
  The deployments command:
  \<^verbatim>\<open>
  const ACTIVE_STATUSES = new Set(["running", "queued", "pending", "in_progress", "deploying", "building"]);
  function normalizeStatus(status?: string) {
    return (status ?? "").toLowerCase().replace(/\s+/g, "_").replace(/-+/g, "_");
  }
  function resolveEnvId(deployment, appIdToEnvId, appKey): string {
    const fromMap = appIdToEnvId.get(appKey);
    if (fromMap) return fromMap;
    const direct = toId(deployment.environment_id ?? deployment.environment_uuid);
    return direct ?? "";
  }
  function resolveAppKey(deployment) {
    return String(deployment.source_app_uuid ?? deployment.application_uuid ?? deployment.application_id ?? "");
  }
  \<close>
\<close>

definition ACTIVE_STATUSES :: "string set" where
  "ACTIVE_STATUSES =
     set [''running'', ''queued'', ''pending'', ''in_progress'', ''deploying'', ''building'']"

definition normalizeStatus :: "string option \<Rightarrow> string" where
  "normalizeStatus status =
     replace_runs (\<lambda>c. c = CHR ''-'') (replace_runs is_ws (toLowerCase (or_empty status)))"

definition resolveEnvId :: "Deployment \<Rightarrow> (string \<rightharpoonup> string) \<Rightarrow> string \<Rightarrow> string" where
  "resolveEnvId deployment appIdToEnvId appKey =
     (let fromMap = appIdToEnvId appKey
      in if truthy_str fromMap then or_empty fromMap
         else (case toId (coalesce (dep_environment_id deployment)
                                   (of_opt (dep_environment_uuid deployment))) of
                 Some direct \<Rightarrow> direct
               | None \<Rightarrow> []))"

definition resolveAppKey :: "Deployment \<Rightarrow> string" where
  "resolveAppKey deployment =
     js_String (coalesce (coalesce (coalesce (of_opt (dep_source_app_uuid deployment))
                                             (of_opt (dep_application_uuid deployment)))
                                   (dep_application_id deployment))
                         (Str []))"

text \<open>
  \<^verbatim>\<open>
  if (filterValue === "all") return items;
  if (filterValue === "status:active") {
    return items.filter((item) => ACTIVE_STATUSES.has(normalizeStatus(item.status)));
  }
  if (filterValue.startsWith("project:")) {
    const projectId = filterValue.replace("project:", "");
    return items.filter((item) => {
      const appKey = resolveAppKey(item);
      const envId = resolveEnvId(item, appIdToEnvId, appKey);
      return envToProjectMap.get(envId) === projectId; });
  }
  if (filterValue.startsWith("env:")) {
    const envName = filterValue.replace("env:", "");
    const envIds = envNameToIds.get(envName);
    if (!envIds) return [];
    return items.filter((item) => {
      const appKey = resolveAppKey(item);
      const envId = resolveEnvId(item, appIdToEnvId, appKey);
      return envIds.has(envId); });
  }
  return items;
  \<close>
\<close>

definition applyFilter_deployments ::
  "Deployment list \<Rightarrow> string \<Rightarrow> (string \<rightharpoonup> string) \<Rightarrow> (string \<rightharpoonup> string set)
     \<Rightarrow> (string \<rightharpoonup> string) \<Rightarrow> Deployment list" where
  "applyFilter_deployments items filterValue envToProjectMap envNameToIds appIdToEnvId =
     (if filterValue = ''all'' then items
      else if filterValue = ''status:active'' then
        filter (\<lambda>item. normalizeStatus (dep_status item) \<in> ACTIVE_STATUSES) items
      else if prefix ''project:'' filterValue then
        (let projectId = remove_first ''project:'' filterValue
         in filter (\<lambda>item. envToProjectMap (resolveEnvId item appIdToEnvId (resolveAppKey item))
                            = Some projectId) items)
      else if prefix ''env:'' filterValue then
        (let envName = remove_first ''env:'' filterValue
         in case envNameToIds envName of
              None \<Rightarrow> []
            | Some envIds \<Rightarrow>
                filter (\<lambda>item. resolveEnvId item appIdToEnvId (resolveAppKey item) \<in> envIds) items)
      else items)"

section \<open>The URL resolver\<close>

text \<open>
  search-resources.tsx:
  \<^verbatim>\<open>
  if (!projectUuid || !environmentUuid || !resourceUuid) return undefined;
  const base = instanceUrl.replace(/\/+$/, "");
  return `${base}/project/${projectUuid}/environment/${environmentUuid}/${type}/${resourceUuid}`;
  \<close>
\<close>

definition resolveResourceUrl ::
  "string \<Rightarrow> string option \<Rightarrow> string option \<Rightarrow> string option \<Rightarrow> ResourceType
     \<Rightarrow> string option" where
  "resolveResourceUrl instanceUrl projectUuid' environmentUuid resourceUuid type =
     (if \<not> truthy_str projectUuid' \<or> \<not> truthy_str environmentUuid \<or> \<not> truthy_str resourceUuid
      then None
      else (let base = strip_trailing_slashes instanceUrl
            in Some (base @ ''/project/'' @ or_empty projectUuid' @ ''/environment/''
                     @ or_empty environmentUuid @ ''/'' @ type_name type @ ''/''
                     @ or_empty resourceUuid)))"

text \<open>
  The deployments command:
  \<^verbatim>\<open>
  if (!projectUuid || !environmentUuid || !applicationUuid || !deploymentUuid) return undefined;
  const base = instanceUrl.replace(/\/+$/, "");
  return `${base}/project/${projectUuid}/environment/${environmentUuid}/application/${applicationUuid}/deployment/${deploymentUuid}`;
  \<close>
\<close>

definition buildCoolifyDeploymentUrl ::
  "string \<Rightarrow> string option \<Rightarrow> string option \<Rightarrow> string option \<Rightarrow> string option
     \<Rightarrow> string option" where
  "buildCoolifyDeploymentUrl instanceUrl projectUuid' environmentUuid applicationUuid deploymentUuid =
     (if \<not> truthy_str projectUuid' \<or> \<not> truthy_str environmentUuid
         \<or> \<not> truthy_str applicationUuid \<or> \<not> truthy_str deploymentUuid
      then None
      else (let base = strip_trailing_slashes instanceUrl
            in Some (base @ ''/project/'' @ or_empty projectUuid' @ ''/environment/''
                     @ or_empty environmentUuid @ ''/application/'' @ or_empty applicationUuid
                     @ ''/deployment/'' @ or_empty deploymentUuid)))"

text \<open>
  \<^verbatim>\<open>
  if (!projectUuid || !environmentUuid || !applicationUuid) return undefined;
  const base = instanceUrl.replace(/\/+$/, "");
  return `${base}/project/${projectUuid}/environment/${environmentUuid}/application/${applicationUuid}/logs`;
  \<close>
\<close>

definition buildCoolifyLogsUrl ::
  "string \<Rightarrow> string option \<Rightarrow> string option \<Rightarrow> string option \<Rightarrow> string option" where
  "buildCoolifyLogsUrl instanceUrl projectUuid' environmentUuid applicationUuid =
     (if \<not> truthy_str projectUuid' \<or> \<not> truthy_str environmentUuid \<or> \<not> truthy_str applicationUuid
      then None
      else (let base = strip_trailing_slashes instanceUrl
            in Some (base @ ''/project/'' @ or_empty projectUuid' @ ''/environment/''
                     @ or_empty environmentUuid @ ''/application/'' @ or_empty applicationUuid
                     @ ''/logs'')))"

section \<open>The deployment shape normalizer\<close>

text \<open>
  A deserialized response. An object is the list of its own properties, each name once;
  numbers are the integers.
\<close>

datatype json =
    JUndefined
  | JNull
  | JBool bool
  | JNumber int
  | JString string
  | JArray "json list"
  | JObject "(string \<times> json) list"

datatype js_error = TypeError

fun isArray :: "json \<Rightarrow> bool" where
  "isArray (JArray xs) = True"
| "isArray _ = False"

fun elements :: "json \<Rightarrow> json list" where
  "elements (JArray xs) = xs"
| "elements _ = []"

fun truthy :: "json \<Rightarrow> bool" where
  "truthy JUndefined = False"
| "truthy JNull = False"
| "truthy (JBool b) = b"
| "truthy (JNumber n) = (n \<noteq> 0)"
| "truthy (JString s) = (s \<noteq> [])"
| "truthy (JArray xs) = True"
| "truthy (JObject kvs) = True"

fun typeof :: "json \<Rightarrow> string" where
  "typeof JUndefined = ''undefined''"
| "typeof JNull = ''object''"
| "typeof (JBool b) = ''boolean''"
| "typeof (JNumber n) = ''number''"
| "typeof (JString s) = ''string''"
| "typeof (JArray xs) = ''object''"
| "typeof (JObject kvs) = ''object''"

text \<open>
  Reading a property: a TypeError on undefined and null; the property's value, or
  undefined, on an object; undefined on an array or a primitive, for the names read here
  (\<open>rows\<close>, \<open>data\<close>, \<open>deployments\<close>), which no prototype defines.
\<close>

fun get_prop :: "json \<Rightarrow> string \<Rightarrow> js_error + json" where
  "get_prop JUndefined k = Inl TypeError"
| "get_prop JNull k = Inl TypeError"
| "get_prop (JObject kvs) k = Inr (case map_of kvs k of None \<Rightarrow> JUndefined | Some v \<Rightarrow> v)"
| "get_prop (JBool b) k = Inr JUndefined"
| "get_prop (JNumber n) k = Inr JUndefined"
| "get_prop (JString s) k = Inr JUndefined"
| "get_prop (JArray xs) k = Inr JUndefined"

definition bind_err :: "js_error + 'a \<Rightarrow> ('a \<Rightarrow> js_error + 'b) \<Rightarrow> js_error + 'b" where
  "bind_err r f = (case r of Inl e \<Rightarrow> Inl e | Inr v \<Rightarrow> f v)"

text \<open>
  \<^verbatim>\<open>
  function normalizeList<T>(response: unknown): T[] {
    if (Array.isArray(response)) return response as T[];
    if (!response || typeof response !== "object") return [];
    const record = response as Record<string, unknown>;
    if (Array.isArray(record.rows)) return record.rows as T[];
    if (Array.isArray(record.data)) return record.data as T[];
    if (Array.isArray(record.deployments)) return record.deployments as T[];
    if (record.data && typeof record.data === "object") {
      const nested = record.data as Record<string, unknown>;
      if (Array.isArray(nested.rows)) return nested.rows as T[];
      if (Array.isArray(nested.data)) return nested.data as T[];
    }
    return [];
  }
  \<close>
\<close>

definition normalizeList :: "json \<Rightarrow> js_error + json list" where
  "normalizeList response =
     (if isArray response then Inr (elements response)
      else if \<not> truthy response \<or> typeof response \<noteq> ''object'' then Inr []
      else
        bind_err (get_prop response ''rows'') (\<lambda>rows.
        if isArray rows then Inr (elements rows) else
        bind_err (get_prop response ''data'') (\<lambda>data.
        if isArray data then Inr (elements data) else
        bind_err (get_prop response ''deployments'') (\<lambda>deployments.
        if isArray deployments then Inr (elements deployments) else
        if truthy data \<and> typeof data = ''object'' then
          bind_err (get_prop data ''rows'') (\<lambda>nested_rows.
          if isArray nested_rows then Inr (elements nested_rows) else
          bind_err (get_prop data ''data'') (\<lambda>nested_data.
          if isArray nested_data then Inr (elements nested_data) else Inr []))
        else Inr []))))"

text \<open>
  The specification's reading, to compare with: the value under a name of an object
  (undefined for anything else), and the first array among a list of candidates.
\<close>

fun field :: "json \<Rightarrow> string \<Rightarrow> json" where
  "field (JObject kvs) k = (case map_of kvs k of None \<Rightarrow> JUndefined | Some v \<Rightarrow> v)"
| "field _ k = JUndefined"

definition first_array :: "json list \<Rightarrow> json list" where
  "first_array candidates = (case find isArray candidates of None \<Rightarrow> [] | Some a \<Rightarrow> elements a)"

definition recognized_shapes :: "json \<Rightarrow> json list" where
  "recognized_shapes response =
     [response, field response ''rows'', field response ''data'', field response ''deployments'',
      field (field response ''data'') ''rows'', field (field response ''data'') ''data'']"

section \<open>The primary URL of an application\<close>

text \<open>
  \<^verbatim>\<open>
  export function getPrimaryUrl(app: Application): string | undefined {
    if (!app.fqdn) return undefined;
    const raw = app.fqdn.split(",")[0]?.trim();
    if (!raw) return undefined;
    if (raw.startsWith("http://") || raw.startsWith("https://")) return raw;
    return `https://${raw}`;
  }
  \<close>
\<close>

definition getPrimaryUrl :: "Application \<Rightarrow> string option" where
  "getPrimaryUrl app =
     (if \<not> truthy_str (app_fqdn app) then None
      else (let raw = (case split_on CHR '','' (or_empty (app_fqdn app)) of
                         [] \<Rightarrow> None
                       | t # ts \<Rightarrow> Some (trim t))
            in if \<not> truthy_str raw then None
               else if prefix ''http://'' (or_empty raw) \<or> prefix ''https://'' (or_empty raw)
                    then raw
               else Some (''https://'' @ or_empty raw)))"

text \<open>
  The specification's reading, to compare with: the first comma-separated token, and a
  token that declares a scheme in the sense of RFC 3986 (a letter, then letters, digits,
  plus, minus or dot, then \<open>://\<close>).
\<close>

definition first_token :: "string \<Rightarrow> string" where
  "first_token s = takeWhile (\<lambda>c. c \<noteq> CHR '','') s"

definition is_alpha :: "char \<Rightarrow> bool" where
  "is_alpha c = (let n = (of_char c :: nat) in (65 \<le> n \<and> n \<le> 90) \<or> (97 \<le> n \<and> n \<le> 122))"

definition is_scheme_char :: "char \<Rightarrow> bool" where
  "is_scheme_char c =
     (let n = (of_char c :: nat)
      in is_alpha c \<or> (48 \<le> n \<and> n \<le> 57) \<or> c = CHR ''+'' \<or> c = CHR ''-'' \<or> c = CHR ''.'')"

definition declares_scheme :: "string \<Rightarrow> bool" where
  "declares_scheme s =
     (let name = takeWhile is_scheme_char s
      in name \<noteq> [] \<and> is_alpha (hd name) \<and> prefix ''://'' (drop (length name) s))"

text \<open>
  The identifiers registered under a display name, and the condition under which the
  key-overwriting builders cannot see a collision: two environments of the sequence that
  share a key are the same record.
\<close>

definition keys_unshared :: "ProjectEnvironment list \<Rightarrow> bool" where
  "keys_unshared envs =
     (\<forall>a\<in>set envs. \<forall>b\<in>set envs. env_keys a \<inter> env_keys b \<noteq> {} \<longrightarrow> a = b)"

definition ids_named :: "ProjectEnvironment list \<Rightarrow> string \<Rightarrow> string set" where
  "ids_named envs n = (\<Union>e \<in> set envs. if envDisplayName e = n then env_keys e else {})"

section \<open>Sample records\<close>

definition env_production :: ProjectEnvironment where
  "env_production =
     \<lparr> env_id = Num 10, env_uuid = Some ''e1'', env_name = Some ''production'',
       project_id = Undefined, project_uuid = None,
       projectId = Some ''1'', projectName = Some ''Demo'', projectUuid = Some ''p1'' \<rparr>"

definition env_staging :: ProjectEnvironment where
  "env_staging =
     \<lparr> env_id = Num 20, env_uuid = Some ''e2'', env_name = Some ''staging'',
       project_id = Undefined, project_uuid = None,
       projectId = Some ''2'', projectName = Some ''Other'', projectUuid = Some ''p2'' \<rparr>"

definition env_clash :: ProjectEnvironment where
  "env_clash =
     \<lparr> env_id = Str ''10'', env_uuid = Some ''e3'', env_name = Some ''preview'',
       project_id = Undefined, project_uuid = None,
       projectId = Some ''2'', projectName = Some ''Other'', projectUuid = Some ''p2'' \<rparr>"

definition env_orphan :: ProjectEnvironment where
  "env_orphan =
     \<lparr> env_id = Num 10, env_uuid = Some ''e4'', env_name = Some ''orphan'',
       project_id = Undefined, project_uuid = None,
       projectId = None, projectName = None, projectUuid = None \<rparr>"

definition project_blank_id :: Project where
  "project_blank_id =
     \<lparr> proj_id = Str [], proj_uuid = Some ''p1'', proj_name = Some ''Demo'',
       environments = Some [\<lparr> env_id = Num 10, env_uuid = Some ''e1'',
                               env_name = Some ''production'', project_id = Num 7,
                               project_uuid = None \<rparr>] \<rparr>"

definition project_demo :: Project where
  "project_demo =
     \<lparr> proj_id = Num 1, proj_uuid = Some ''p1'', proj_name = None,
       environments = Some [\<lparr> env_id = Num 10, env_uuid = Some ''e1'',
                               env_name = Some ''production'', project_id = Num 7,
                               project_uuid = None \<rparr>] \<rparr>"

definition app_web :: Application where
  "app_web =
     \<lparr> app_id = Num 100, app_uuid = Some ''a1'', app_name = Some ''web'',
       app_fqdn = Some ''web.example.com'', app_git_repository = None, app_git_branch = None,
       app_environment_id = Num 10, app_environment_uuid = None, app_status = None,
       app_deployment_status = None, app_last_deployment_status = None \<rparr>"

definition app_by_uuid :: Application where
  "app_by_uuid =
     \<lparr> app_id = Num 101, app_uuid = Some ''a2'', app_name = Some ''worker'',
       app_fqdn = None, app_git_repository = None, app_git_branch = None,
       app_environment_id = Undefined, app_environment_uuid = Some ''e1'', app_status = None,
       app_deployment_status = None, app_last_deployment_status = None \<rparr>"

definition db_main :: Database where
  "db_main =
     \<lparr> db_id = Num 200, db_uuid = Some ''d1'', db_name = Some ''main'', db_description = None,
       db_environment_id = Num 10, db_environment_uuid = None, db_db_type = None \<rparr>"

definition db_by_uuid :: Database where
  "db_by_uuid =
     \<lparr> db_id = Num 201, db_uuid = Some ''d2'', db_name = Some ''cache'', db_description = None,
       db_environment_id = Null, db_environment_uuid = Some ''e1'', db_db_type = None \<rparr>"

definition app_ftp :: Application where
  "app_ftp =
     \<lparr> app_id = Num 102, app_uuid = Some ''a3'', app_name = Some ''files'',
       app_fqdn = Some ''ftp://files.example.com, https://files.example.com'',
       app_git_repository = None, app_git_branch = None,
       app_environment_id = Num 10, app_environment_uuid = None, app_status = None,
       app_deployment_status = None, app_last_deployment_status = None \<rparr>"

section \<open>Properties of the string primitives\<close>

lemmas eval_defs = toId_def trim_def is_ws_def string_of_int_def string_of_nat.simps coalesce_def
  env_keys_def envProjectId_def envDisplayName_def

lemmas build_defs = buildEnvLookup_def buildEnvNameMap_def buildEnvToProjectMap_def
  buildEnvNameToIdsMap_def envLookup_step_def envName_step_def envToProject_step_def
  envNameToIds_step_def

lemma all_dropWhile: "(\<forall>x\<in>set (dropWhile P s). P x) \<longleftrightarrow> (\<forall>x\<in>set s. P x)"
  by (induction s) auto

lemma trim_Nil_iff: "trim s = [] \<longleftrightarrow> list_all is_ws s"
  by (simp add: trim_def list_all_iff all_dropWhile)

lemma trim_no_leading_ws: "trim s \<noteq> [] \<Longrightarrow> \<not> is_ws (hd (trim s))"
proof -
  assume ne: "trim s \<noteq> []"
  let ?t = "dropWhile is_ws s"
  have t_ne: "?t \<noteq> []"
  proof
    assume e: "?t = []"
    have "trim s = []" unfolding trim_def e by simp
    with ne show False by simp
  qed
  then have h: "\<not> is_ws (hd ?t)" by (rule hd_dropWhile)
  have "rev (dropWhile is_ws (rev ?t)) = hd ?t # tl (rev (dropWhile is_ws (rev ?t)))"
  proof (cases ?t)
    case Nil
    with t_ne show ?thesis by simp
  next
    case (Cons a as)
    then have a: "\<not> is_ws a" using h by simp
    have "dropWhile is_ws (rev as @ [a]) = dropWhile is_ws (rev as) @ [a]"
      using a by (simp add: dropWhile_append)
    then show ?thesis using Cons by simp
  qed
  then have "hd (trim s) = hd ?t" unfolding trim_def by (metis list.sel(1))
  with h show ?thesis by simp
qed

lemma trim_no_trailing_ws: "trim s \<noteq> [] \<Longrightarrow> \<not> is_ws (last (trim s))"
proof -
  assume ne: "trim s \<noteq> []"
  let ?r = "dropWhile is_ws (rev (dropWhile is_ws s))"
  have r_ne: "?r \<noteq> []" using ne by (simp add: trim_def)
  then have "\<not> is_ws (hd ?r)" by (rule hd_dropWhile)
  moreover have "last (trim s) = hd ?r" using r_ne by (simp add: trim_def last_rev)
  ultimately show ?thesis by simp
qed

lemma remove_first_prefix: "prefix pat s \<Longrightarrow> remove_first pat s = drop (length pat) s"
  by (cases s) simp_all

lemma remove_first_append: "remove_first pat (pat @ p) = p"
  by (simp add: remove_first_prefix)

lemma toId_nonempty: "toId v = Some k \<Longrightarrow> k \<noteq> []"
  by (auto simp: toId_def Let_def split: if_splits)

lemma strip_all_slashes: "list_all is_slash s \<Longrightarrow> strip_trailing_slashes s = []"
  by (cases s) simp_all

lemma strip_trailing_slashes_eq:
  "strip_trailing_slashes s = rev (dropWhile is_slash (rev s))"
proof (induction s)
  case Nil
  show ?case by simp
next
  case (Cons c cs)
  show ?case
  proof (cases "list_all is_slash (c # cs)")
    case True
    then have "dropWhile is_slash (rev (c # cs)) = []" by (simp add: list_all_iff)
    moreover have "strip_trailing_slashes (c # cs) = []" using True by (rule strip_all_slashes)
    ultimately show ?thesis by simp
  next
    case False
    then have st: "strip_trailing_slashes (c # cs) = c # strip_trailing_slashes cs"
      by simp
    show ?thesis
    proof (cases "list_all is_slash cs")
      case True
      with False have c: "\<not> is_slash c" by simp
      have "dropWhile is_slash (rev cs @ [c]) = dropWhile is_slash [c]"
      proof (rule dropWhile_append2)
        fix x assume "x \<in> set (rev cs)"
        then show "is_slash x" using True by (simp add: list_all_iff)
      qed
      then have "rev (dropWhile is_slash (rev (c # cs))) = [c]" using c by simp
      moreover have "strip_trailing_slashes cs = []" using True by (rule strip_all_slashes)
      ultimately show ?thesis using st by simp
    next
      case False
      then obtain x where "x \<in> set (rev cs)" "\<not> is_slash x" by (auto simp: list_all_iff)
      then have "dropWhile is_slash (rev cs @ [c]) = dropWhile is_slash (rev cs) @ [c]"
        by (rule dropWhile_append1)
      then show ?thesis using st Cons.IH by simp
    qed
  qed
qed

lemma stripped_decompose:
  "\<exists>n. s = rev (dropWhile is_slash (rev s)) @ replicate n (CHR ''/'')"
proof -
  have "rev (rev s) = rev (takeWhile is_slash (rev s) @ dropWhile is_slash (rev s))" by simp
  then have "s = rev (dropWhile is_slash (rev s)) @ rev (takeWhile is_slash (rev s))"
    by (simp only: rev_append rev_rev_ident)
  moreover have "rev (takeWhile is_slash (rev s))
                 = replicate (length (takeWhile is_slash (rev s))) (CHR ''/'')"
  proof (rule replicate_eqI)
    show "length (rev (takeWhile is_slash (rev s))) = length (takeWhile is_slash (rev s))"
      by simp
    fix y assume "y \<in> set (rev (takeWhile is_slash (rev s)))"
    then have "is_slash y" by (auto dest: set_takeWhileD)
    then show "y = CHR ''/''" by (simp add: is_slash_def)
  qed
  ultimately show ?thesis by (intro exI [of _ "length (takeWhile is_slash (rev s))"]) simp
qed

lemma stripped_no_trailing_slash:
  "rev (dropWhile is_slash (rev s)) \<noteq> [] \<Longrightarrow> \<not> is_slash (last (rev (dropWhile is_slash (rev s))))"
proof -
  let ?d = "dropWhile is_slash (rev s)"
  assume "rev ?d \<noteq> []"
  then have ne: "?d \<noteq> []" by simp
  then have "\<not> is_slash (hd ?d)" by (rule hd_dropWhile)
  moreover have "last (rev ?d) = hd ?d" using ne by (simp add: last_rev)
  ultimately show ?thesis by simp
qed

lemma split_on_first: "\<exists>ts. split_on d s = takeWhile (\<lambda>c. c \<noteq> d) s # ts"
proof (induction s)
  case Nil
  show ?case by simp
next
  case (Cons c cs)
  then obtain ts where "split_on d cs = takeWhile (\<lambda>c. c \<noteq> d) cs # ts" by blast
  then show ?case by simp
qed

section \<open>Properties of the lookup-map builders\<close>

lemma set_if_apply: "set_if ko v m k = (if ko = Some k then Some v else m k)"
  by (cases ko) auto

lemma envLookup_step_apply:
  "envLookup_step m env k = (if k \<in> env_keys env then Some env else m k)"
  by (auto simp: envLookup_step_def env_keys_def set_if_apply)

lemma envName_step_apply:
  "envName_step m env k = (if k \<in> env_keys env then Some (envDisplayName env) else m k)"
  by (auto simp: envName_step_def env_keys_def set_if_apply)

lemma envToProject_step_apply:
  "envToProject_step m env k =
     (if k \<in> env_keys env \<and> envProjectId env \<noteq> None then envProjectId env else m k)"
  by (auto simp: envToProject_step_def env_keys_def set_if_apply split: option.splits)

lemma foldl_envLookup_apply:
  "foldl envLookup_step m envs k =
     (case find (\<lambda>e. k \<in> env_keys e) (rev envs) of Some e \<Rightarrow> Some e | None \<Rightarrow> m k)"
  by (induction envs arbitrary: m rule: rev_induct) (simp_all add: envLookup_step_apply)

lemma foldl_envName_apply:
  "foldl envName_step m envs k =
     (case find (\<lambda>e. k \<in> env_keys e) (rev envs) of Some e \<Rightarrow> Some (envDisplayName e) | None \<Rightarrow> m k)"
  by (induction envs arbitrary: m rule: rev_induct) (simp_all add: envName_step_apply)

lemma foldl_envToProject_apply:
  "foldl envToProject_step m envs k =
     (case find (\<lambda>e. k \<in> env_keys e \<and> envProjectId e \<noteq> None) (rev envs) of
        Some e \<Rightarrow> envProjectId e | None \<Rightarrow> m k)"
  by (induction envs rule: rev_induct) (auto simp: envToProject_step_apply)

lemma add_if_eq: "add_if ko s = set_option ko \<union> s"
  by (cases ko) auto

lemma envNameToIds_step_apply:
  "envNameToIds_step m env n =
     (if n = envDisplayName env \<and> (case m n of None \<Rightarrow> {} | Some s \<Rightarrow> s) \<union> env_keys env \<noteq> {}
      then Some ((case m n of None \<Rightarrow> {} | Some s \<Rightarrow> s) \<union> env_keys env) else m n)"
  by (auto simp: envNameToIds_step_def env_keys_def add_if_eq Let_def Un_commute Un_left_commute Un_assoc split: option.splits)

lemma ids_named_snoc:
  "ids_named (envs @ [e]) n = ids_named envs n \<union> (if envDisplayName e = n then env_keys e else {})"
  by (auto simp: ids_named_def split: if_splits)

lemma foldl_envNameToIds_apply:
  "m n \<noteq> Some {} \<Longrightarrow>
   foldl envNameToIds_step m envs n =
     (let s = (case m n of None \<Rightarrow> {} | Some s \<Rightarrow> s) \<union> ids_named envs n
      in if s = {} then None else Some s)"
proof (induction envs rule: rev_induct)
  case Nil
  then show ?case by (cases "m n") (simp_all add: ids_named_def)
next
  case (snoc e envs)
  let ?b = "case m n of None \<Rightarrow> {} | Some s \<Rightarrow> s"
  let ?S = "?b \<union> ids_named envs n"
  let ?f = "foldl envNameToIds_step m envs"
  from snoc have IH: "?f n = (if ?S = {} then None else Some ?S)"
    by (simp add: Let_def)
  then have g: "(case ?f n of None \<Rightarrow> {} | Some s \<Rightarrow> s) = ?S"
    by (cases "?S = {}") simp_all
  have st: "foldl envNameToIds_step m (envs @ [e]) n = envNameToIds_step ?f e n"
    by simp
  have ap: "envNameToIds_step ?f e n =
      (if n = envDisplayName e \<and> ?S \<union> env_keys e \<noteq> {} then Some (?S \<union> env_keys e) else ?f n)"
    unfolding envNameToIds_step_apply g ..
  show ?case
  proof (cases "envDisplayName e = n")
    case True
    have "ids_named (envs @ [e]) n = ids_named envs n \<union> env_keys e"
      using True by (simp add: ids_named_snoc)
    then show ?thesis
      unfolding st ap IH using True by (simp add: Let_def Un_assoc)
  next
    case False
    have "ids_named (envs @ [e]) n = ids_named envs n"
      using False by (simp add: ids_named_snoc)
    moreover have "n \<noteq> envDisplayName e" using False by blast
    ultimately show ?thesis
      unfolding st ap IH by (simp add: Let_def)
  qed
qed

lemma find_append_case:
  "find P (xs @ ys) = (case find P xs of None \<Rightarrow> find P ys | Some x \<Rightarrow> Some x)"
  by (induction xs) simp_all

lemma find_last_wins:
  "P b \<Longrightarrow> \<forall>e\<in>set post. \<not> P e \<Longrightarrow> find P (rev (pre @ b # post)) = Some b"
proof -
  assume b: "P b" and post: "\<forall>e\<in>set post. \<not> P e"
  have "find P (rev post) = None" using post by (simp add: find_None_iff)
  then show ?thesis using b by (simp add: find_append_case)
qed

lemma find_twice: "find P (rev (xs @ xs)) = find P (rev xs)"
  by (simp add: find_append_case split: option.splits)

lemma find_unique_set:
  assumes u: "\<forall>a\<in>set xs. \<forall>b\<in>set xs. P a \<longrightarrow> P b \<longrightarrow> a = b"
      and s: "set ys = set xs"
  shows "find P ys = find P xs"
proof (cases "find P xs")
  case None
  then have "\<forall>x\<in>set xs. \<not> P x" by (simp add: find_None_iff)
  then have "find P ys = None" using s by (simp add: find_None_iff)
  with None show ?thesis by simp
next
  case (Some a)
  then have a: "a \<in> set xs" "P a" by (auto simp: find_Some_iff in_set_conv_nth)
  then have "find P ys \<noteq> None" using s by (auto simp: find_None_iff)
  then obtain b where fb: "find P ys = Some b" by blast
  then have "b \<in> set ys" "P b" by (auto simp: find_Some_iff in_set_conv_nth)
  then have "a = b" using u a s by blast
  with fb Some show ?thesis by simp
qed

lemma buildEnvLookup_apply:
  "buildEnvLookup envs k = find (\<lambda>e. k \<in> env_keys e) (rev envs)"
  by (simp add: buildEnvLookup_def foldl_envLookup_apply split: option.splits)

lemma buildEnvNameMap_apply:
  "buildEnvNameMap envs k = map_option envDisplayName (find (\<lambda>e. k \<in> env_keys e) (rev envs))"
  by (simp add: buildEnvNameMap_def foldl_envName_apply split: option.splits)

lemma buildEnvToProjectMap_apply:
  "buildEnvToProjectMap envs k =
     (case find (\<lambda>e. k \<in> env_keys e \<and> envProjectId e \<noteq> None) (rev envs) of
        Some e \<Rightarrow> envProjectId e | None \<Rightarrow> None)"
  by (simp add: buildEnvToProjectMap_def foldl_envToProject_apply)

lemma buildEnvNameToIdsMap_apply:
  "buildEnvNameToIdsMap envs n = (if ids_named envs n = {} then None else Some (ids_named envs n))"
  by (simp add: buildEnvNameToIdsMap_def foldl_envNameToIds_apply Let_def)

lemma ids_named_cong: "set envs' = set envs \<Longrightarrow> ids_named envs' = ids_named envs"
  by (simp add: ids_named_def fun_eq_iff)

lemma unshared_unique:
  "keys_unshared envs \<Longrightarrow>
   \<forall>a\<in>set (rev envs). \<forall>b\<in>set (rev envs). k \<in> env_keys a \<and> Q a \<longrightarrow> k \<in> env_keys b \<and> Q b \<longrightarrow> a = b"
  unfolding keys_unshared_def by auto

lemma find_perm_unshared:
  assumes "keys_unshared envs" and "set envs' = set envs"
  shows "find (\<lambda>e. k \<in> env_keys e \<and> Q e) (rev envs') = find (\<lambda>e. k \<in> env_keys e \<and> Q e) (rev envs)"
  by (rule find_unique_set [OF unshared_unique [OF assms(1)]]) (simp add: assms(2))

lemma empty_not_env_key: "[] \<notin> env_keys e"
  by (auto simp: env_keys_def dest: toId_nonempty)

lemma envToProjectMap_empty_key: "buildEnvToProjectMap envs [] = None"
  by (simp add: buildEnvToProjectMap_apply empty_not_env_key find_None_iff[THEN iffD2])

lemma envNameToIds_empty_member: "buildEnvNameToIdsMap envs n = Some s \<Longrightarrow> [] \<notin> s"
  by (auto simp: buildEnvNameToIdsMap_apply ids_named_def empty_not_env_key split: if_splits)

lemma env_id_string_nullish: "nullish v \<Longrightarrow> env_id_string v = []"
  by (simp add: env_id_string_def coalesce_def)

lemma set_flattenEnvironments:
  "set (flattenEnvironments projects) = (\<Union>project\<in>set projects. set (flattenProject project))"
  by (induction projects) simp_all

text \<open>
  What \<open>flattenEnvironments\<close> computes for each element of its output, from the project
  and the environment the element comes from.
\<close>

lemma flattenEnvironments_elements:
  "e \<in> set (flattenEnvironments projects) \<longrightarrow>
     (\<exists>project environment.
        project \<in> set projects
        \<and> environment \<in> set (case environments project of None \<Rightarrow> [] | Some es \<Rightarrow> es)
        \<and> env_id e = env_id environment \<and> env_uuid e = env_uuid environment
        \<and> env_name e = env_name environment
        \<and> projectName e \<noteq> None
        \<and> projectName e = Some (case proj_name project of None \<Rightarrow> ''Unnamed Project'' | Some n \<Rightarrow> n)
        \<and> projectId e =
             (case toId (coalesce (proj_id project) (of_opt (proj_uuid project))) of
                Some p \<Rightarrow> Some p
              | None \<Rightarrow> toId (coalesce (project_id environment) (of_opt (project_uuid environment))))
        \<and> (\<not> nullish (proj_id project) \<longrightarrow>
              toId (coalesce (proj_id project) (of_opt (proj_uuid project))) = toId (proj_id project))
        \<and> (nullish (proj_id project) \<longrightarrow>
              toId (coalesce (proj_id project) (of_opt (proj_uuid project)))
                = toId (of_opt (proj_uuid project)))
        \<and> projectUuid e = (if truthy_str (proj_uuid project) then proj_uuid project else None))"
proof
  assume "e \<in> set (flattenEnvironments projects)"
  then obtain project where p: "project \<in> set projects" and e: "e \<in> set (flattenProject project)"
    by (auto simp: set_flattenEnvironments)
  let ?es = "case environments project of None \<Rightarrow> [] | Some es \<Rightarrow> es"
  from e obtain environment where m: "environment \<in> set ?es"
    and eq: "e = attachProject (toId (coalesce (proj_id project) (of_opt (proj_uuid project))))
                  (case proj_name project of None \<Rightarrow> ''Unnamed Project'' | Some n \<Rightarrow> n)
                  (case proj_uuid project of None \<Rightarrow> None | Some u \<Rightarrow> if u = [] then None else Some u)
                  environment"
    by (auto simp: flattenProject_def Let_def)
  have u: "(case proj_uuid project of None \<Rightarrow> None | Some u \<Rightarrow> if u = [] then None else Some u)
           = (if truthy_str (proj_uuid project) then proj_uuid project else None)"
    by (cases "proj_uuid project") simp_all
  have c1: "\<not> nullish (proj_id project) \<longrightarrow>
              toId (coalesce (proj_id project) (of_opt (proj_uuid project))) = toId (proj_id project)"
    by (simp add: coalesce_def)
  have c2: "nullish (proj_id project) \<longrightarrow>
              toId (coalesce (proj_id project) (of_opt (proj_uuid project)))
                = toId (of_opt (proj_uuid project))"
    by (simp add: coalesce_def)
  show "\<exists>project environment.
        project \<in> set projects
        \<and> environment \<in> set (case environments project of None \<Rightarrow> [] | Some es \<Rightarrow> es)
        \<and> env_id e = env_id environment \<and> env_uuid e = env_uuid environment
        \<and> env_name e = env_name environment
        \<and> projectName e \<noteq> None
        \<and> projectName e = Some (case proj_name project of None \<Rightarrow> ''Unnamed Project'' | Some n \<Rightarrow> n)
        \<and> projectId e =
             (case toId (coalesce (proj_id project) (of_opt (proj_uuid project))) of
                Some p \<Rightarrow> Some p
              | None \<Rightarrow> toId (coalesce (project_id environment) (of_opt (project_uuid environment))))
        \<and> (\<not> nullish (proj_id project) \<longrightarrow>
              toId (coalesce (proj_id project) (of_opt (proj_uuid project))) = toId (proj_id project))
        \<and> (nullish (proj_id project) \<longrightarrow>
              toId (coalesce (proj_id project) (of_opt (proj_uuid project)))
                = toId (of_opt (proj_uuid project)))
        \<and> projectUuid e = (if truthy_str (proj_uuid project) then proj_uuid project else None)"
    apply (rule exI [of _ project], rule exI [of _ environment])
    using p m c1 c2 by (simp add: eq attachProject_def u)
qed

section \<open>Properties of the shape normalizer\<close>

lemma get_prop_object: "get_prop (JObject kvs) k = Inr (field (JObject kvs) k)"
  by simp

lemma get_prop_nested:
  "truthy d \<Longrightarrow> typeof d = ''object'' \<Longrightarrow> get_prop d k = Inr (field d k)"
  by (cases d) simp_all

lemma field_not_object:
  "\<not> (truthy d \<and> typeof d = ''object'') \<Longrightarrow> field d k = JUndefined"
  by (cases d) simp_all

lemma normalizeList_object:
  "normalizeList (JObject kvs) = Inr (first_array (recognized_shapes (JObject kvs)))"
proof -
  let ?r = "JObject kvs"
  let ?data = "field ?r ''data''"
  show ?thesis
  proof (cases "truthy ?data \<and> typeof ?data = ''object''")
    case True
    then have n: "get_prop ?data k = Inr (field ?data k)" for k
      by (simp add: get_prop_nested)
    show ?thesis
      unfolding normalizeList_def recognized_shapes_def first_array_def get_prop_object bind_err_def
      using True by (simp add: n del: field.simps)
  next
    case False
    then have n: "field ?data k = JUndefined" for k
      by (rule field_not_object)
    show ?thesis
      unfolding normalizeList_def recognized_shapes_def first_array_def get_prop_object bind_err_def
      using False by (auto simp: n simp del: field.simps)
  qed
qed

lemma normalizeList_refines:
  "normalizeList response = Inr (first_array (recognized_shapes response))"
proof (cases response)
  case (JObject kvs)
  then show ?thesis by (simp only: normalizeList_object)
qed (simp_all add: normalizeList_def recognized_shapes_def first_array_def)

section \<open>Claims\<close>

text \<open>
  C1. For every input value v (a number, a string, undefined or null), \<open>toId\<close> returns null
  if and only if v is undefined, null, or its string representation is blank after
  trimming (all of it is white space); otherwise it returns the trimmed string
  representation of v, which neither starts nor ends with white space. So 42, "42" and
  " 42 " all normalize to the string "42".
\<close>

theorem toId_spec:
  "(toId v = None \<longleftrightarrow> v = Undefined \<or> v = Null \<or> trim (js_String v) = [])
   \<and> (toId v = None \<longleftrightarrow> v = Undefined \<or> v = Null \<or> list_all is_ws (js_String v))
   \<and> (toId v \<noteq> None \<longrightarrow>
         toId v = Some (trim (js_String v))
         \<and> \<not> is_ws (hd (trim (js_String v))) \<and> \<not> is_ws (last (trim (js_String v))))
   \<and> toId (Num 42) = Some ''42'' \<and> toId (Str ''42'') = Some ''42''
   \<and> toId (Str '' 42 '') = Some ''42''"
proof -
  have a: "toId v = None \<longleftrightarrow> v = Undefined \<or> v = Null \<or> trim (js_String v) = []"
    by (simp add: toId_def Let_def)
  have b: "toId v \<noteq> None \<longrightarrow>
         toId v = Some (trim (js_String v))
         \<and> \<not> is_ws (hd (trim (js_String v))) \<and> \<not> is_ws (last (trim (js_String v)))"
  proof
    assume "toId v \<noteq> None"
    then have ne: "trim (js_String v) \<noteq> []"
      by (auto simp: toId_def Let_def split: if_splits)
    then have "toId v = Some (trim (js_String v))"
      using \<open>toId v \<noteq> None\<close> by (simp add: toId_def Let_def split: if_splits)
    with ne show "toId v = Some (trim (js_String v))
         \<and> \<not> is_ws (hd (trim (js_String v))) \<and> \<not> is_ws (last (trim (js_String v)))"
      by (simp add: trim_no_leading_ws trim_no_trailing_ws)
  qed
  have c: "toId (Num 42) = Some ''42''"
    by (simp add: toId_def trim_def string_of_int_def string_of_nat.simps is_ws_def)
  have d: "toId (Str ''42'') = Some ''42''"
    by (simp add: toId_def trim_def is_ws_def)
  have e: "toId (Str '' 42 '') = Some ''42''"
    by (simp add: toId_def trim_def is_ws_def)
  from a b c d e show ?thesis by (simp only: trim_Nil_iff simp_thms)
qed

text \<open>
  The theorem at the number 7 and at a string of two spaces.
\<close>

theorem toId_spec_witness:
  "toId (Num 7) \<noteq> None \<and> toId (Num 7) = Some ''7'' \<and> toId (Str ''  '') = None"
proof -
  have ne: "toId (Num 7) \<noteq> None"
    by (simp add: toId_def trim_def string_of_int_def string_of_nat.simps is_ws_def)
  have "toId (Num 7) = Some (trim (js_String (Num 7)))"
    using toId_spec [of "Num 7"] ne by blast
  moreover have "trim (js_String (Num 7)) = ''7''"
    by (simp add: trim_def string_of_int_def string_of_nat.simps is_ws_def)
  moreover have "toId (Str ''  '') = None"
    using toId_spec [of "Str ''  ''"] by (simp add: is_ws_def)
  ultimately show ?thesis using ne by simp
qed

text \<open>
  C2. \<open>normalizeList\<close> returns a bare array unchanged; for an object it returns the first
  array found trying, in this order, the properties rows, data, deployments, then the
  nested data.rows and data.data; for any other input (the empty object, null, undefined,
  a string, a number, a boolean) it returns the empty array. It never throws: every
  property read it makes is on an object, so the result is always a list.
\<close>

theorem normalizeList_shapes:
  "normalizeList response = Inr (first_array (recognized_shapes response))
   \<and> normalizeList (JArray xs) = Inr xs
   \<and> normalizeList (JObject [(''rows'', JArray xs)]) = Inr xs
   \<and> normalizeList (JObject [(''data'', JArray xs)]) = Inr xs
   \<and> normalizeList (JObject [(''deployments'', JArray xs)]) = Inr xs
   \<and> normalizeList (JObject [(''data'', JObject [(''rows'', JArray xs)])]) = Inr xs
   \<and> normalizeList (JObject [(''data'', JObject [(''data'', JArray xs)])]) = Inr xs
   \<and> normalizeList (JObject []) = Inr []
   \<and> normalizeList JNull = Inr []
   \<and> normalizeList JUndefined = Inr []
   \<and> normalizeList (JString s) = Inr []
   \<and> normalizeList (JNumber n) = Inr []
   \<and> normalizeList (JBool b) = Inr []
   \<and> (\<exists>result. normalizeList response = Inr result)"
proof -
  have r: "normalizeList x = Inr (first_array (recognized_shapes x))" for x
    by (rule normalizeList_refines)
  have e: "\<exists>result. normalizeList response = Inr result"
    using r [of response] by blast
  have i: "normalizeList (JArray xs) = Inr xs
   \<and> normalizeList (JObject [(''rows'', JArray xs)]) = Inr xs
   \<and> normalizeList (JObject [(''data'', JArray xs)]) = Inr xs
   \<and> normalizeList (JObject [(''deployments'', JArray xs)]) = Inr xs
   \<and> normalizeList (JObject [(''data'', JObject [(''rows'', JArray xs)])]) = Inr xs
   \<and> normalizeList (JObject [(''data'', JObject [(''data'', JArray xs)])]) = Inr xs
   \<and> normalizeList (JObject []) = Inr []
   \<and> normalizeList JNull = Inr []
   \<and> normalizeList JUndefined = Inr []
   \<and> normalizeList (JString s) = Inr []
   \<and> normalizeList (JNumber n) = Inr []
   \<and> normalizeList (JBool b) = Inr []"
    by (simp add: normalizeList_def bind_err_def)
  show ?thesis by (rule conjI [OF r conjI [OF i [THEN conjunct1] _]]) (use i e in simp)
qed

text \<open>
  The theorem at a payload nested two levels deep, and at one where only the third
  recognized property holds an array.
\<close>

theorem normalizeList_shapes_witness:
  "normalizeList (JObject [(''total'', JNumber 2),
                           (''data'', JObject [(''data'', JArray [JNumber 1, JNumber 2])])])
     = Inr [JNumber 1, JNumber 2]
   \<and> normalizeList (JObject [(''rows'', JString ''none''), (''deployments'', JArray [JNull]),
                              (''data'', JObject [(''rows'', JArray [])])])
     = Inr [JNull]"
proof -
  have a: "first_array (recognized_shapes
             (JObject [(''total'', JNumber 2),
                       (''data'', JObject [(''data'', JArray [JNumber 1, JNumber 2])])]))
           = [JNumber 1, JNumber 2]"
    by (simp add: first_array_def recognized_shapes_def)
  have b: "first_array (recognized_shapes
             (JObject [(''rows'', JString ''none''), (''deployments'', JArray [JNull]),
                       (''data'', JObject [(''rows'', JArray [])])]))
           = [JNull]"
    by (simp add: first_array_def recognized_shapes_def)
  show ?thesis
    using normalizeList_shapes
            [of "JObject [(''total'', JNumber 2),
                          (''data'', JObject [(''data'', JArray [JNumber 1, JNumber 2])])]"]
          normalizeList_shapes
            [of "JObject [(''rows'', JString ''none''), (''deployments'', JArray [JNull]),
                          (''data'', JObject [(''rows'', JArray [])])]"]
    by (simp only: a b)
qed

text \<open>
  C3 (as amended). For every sequence of ProjectEnvironment records and every environment
  in it, \<open>buildEnvLookup\<close> holds an entry under each normalized key the environment has
  (its id, its uuid), and \<open>buildEnvToProjectMap\<close> holds one too when the environment's
  project id resolves (an environment whose project id does not resolve is skipped). When
  no later environment of the sequence shares a key with it, a lookup under either key
  form returns that environment's own record, respectively its own project id.
\<close>

theorem env_maps_keyed_by_id_and_uuid:
  "(env \<in> set envs \<and> k \<in> env_keys env \<longrightarrow>
      buildEnvLookup envs k \<noteq> None
      \<and> (envProjectId env \<noteq> None \<longrightarrow> buildEnvToProjectMap envs k \<noteq> None))
   \<and> ((\<forall>e\<in>set post. env_keys e \<inter> env_keys env = {}) \<longrightarrow>
        (\<forall>k\<in>env_keys env.
           buildEnvLookup (pre @ env # post) k = Some env
           \<and> (envProjectId env \<noteq> None \<longrightarrow>
                buildEnvToProjectMap (pre @ env # post) k = envProjectId env)))"
proof (intro conjI impI ballI)
  assume h: "env \<in> set envs \<and> k \<in> env_keys env"
  then have "\<exists>e\<in>set (rev envs). k \<in> env_keys e" by auto
  then show "buildEnvLookup envs k \<noteq> None"
    unfolding buildEnvLookup_apply by (auto simp: find_None_iff)
next
  assume h: "env \<in> set envs \<and> k \<in> env_keys env" and p: "envProjectId env \<noteq> None"
  let ?P = "\<lambda>e. k \<in> env_keys e \<and> envProjectId e \<noteq> None"
  from h p have "\<exists>e\<in>set (rev envs). ?P e" by auto
  then have "find ?P (rev envs) \<noteq> None" by (auto simp: find_None_iff)
  then obtain e where f: "find ?P (rev envs) = Some e" by blast
  then have "?P e" by (auto simp: find_Some_iff)
  with f show "buildEnvToProjectMap envs k \<noteq> None"
    unfolding buildEnvToProjectMap_apply by simp
next
  fix k
  assume d: "\<forall>e\<in>set post. env_keys e \<inter> env_keys env = {}" and k: "k \<in> env_keys env"
  from d k have "\<forall>e\<in>set post. \<not> k \<in> env_keys e" by blast
  with k show "buildEnvLookup (pre @ env # post) k = Some env"
    unfolding buildEnvLookup_apply by (rule find_last_wins)
next
  fix k
  assume d: "\<forall>e\<in>set post. env_keys e \<inter> env_keys env = {}" and k: "k \<in> env_keys env"
     and p: "envProjectId env \<noteq> None"
  let ?P = "\<lambda>e. k \<in> env_keys e \<and> envProjectId e \<noteq> None"
  from d k have "\<forall>e\<in>set post. \<not> ?P e" by blast
  moreover have "?P env" using k p by simp
  ultimately have "find ?P (rev (pre @ env # post)) = Some env" by (rule find_last_wins[rotated])
  then show "buildEnvToProjectMap (pre @ env # post) k = envProjectId env"
    unfolding buildEnvToProjectMap_apply by simp
qed

text \<open>
  The theorem at the sequence production, staging and the environment production.
\<close>

theorem env_maps_keyed_by_id_and_uuid_witness:
  "env_production \<in> set [env_production, env_staging]
   \<and> env_keys env_production = {''10'', ''e1''}
   \<and> env_keys env_staging \<inter> env_keys env_production = {}
   \<and> envProjectId env_production \<noteq> None
   \<and> buildEnvLookup [env_production, env_staging] ''10'' = Some env_production
   \<and> buildEnvLookup [env_production, env_staging] ''e1'' = Some env_production
   \<and> buildEnvToProjectMap [env_production, env_staging] ''10'' = Some ''1''
   \<and> buildEnvToProjectMap [env_production, env_staging] ''e1'' = Some ''1''"
proof -
  have ks: "env_keys env_production = {''10'', ''e1''}"
    by (simp add: eval_defs env_production_def insert_commute)
  have ks': "env_keys env_staging = {''20'', ''e2''}"
    by (simp add: eval_defs env_staging_def insert_commute)
  have p: "envProjectId env_production = Some ''1''"
    by (simp add: eval_defs env_production_def)
  have h: "\<forall>e\<in>set [env_staging]. env_keys e \<inter> env_keys env_production = {}"
    by (simp add: ks ks')
  have t: "\<forall>k\<in>env_keys env_production.
           buildEnvLookup ([] @ env_production # [env_staging]) k = Some env_production
           \<and> (envProjectId env_production \<noteq> None \<longrightarrow>
                buildEnvToProjectMap ([] @ env_production # [env_staging]) k
                  = envProjectId env_production)"
    using env_maps_keyed_by_id_and_uuid
      [where env = env_production and pre = "[]" and post = "[env_staging]"] h by blast
  show ?thesis using t h p by (simp add: ks)
qed

text \<open>
  As first stated the property fails twice. An environment with an id and a uuid but no
  resolvable project id gets no entry in \<open>buildEnvToProjectMap\<close>. And when a later
  environment has the same normalized id, the lookup under the id returns the later record
  while the lookup under the uuid returns the earlier one.
\<close>

theorem env_maps_keyed_counterexample:
  "env_orphan \<in> set [env_orphan] \<and> toId (env_id env_orphan) = Some ''10''
   \<and> toId (of_opt (env_uuid env_orphan)) = Some ''e4''
   \<and> buildEnvToProjectMap [env_orphan] ''10'' = None
   \<and> buildEnvToProjectMap [env_orphan] ''e4'' = None
   \<and> env_production \<in> set [env_production, env_clash]
   \<and> toId (env_id env_production) = Some ''10''
   \<and> toId (of_opt (env_uuid env_production)) = Some ''e1''
   \<and> buildEnvLookup [env_production, env_clash] ''10'' = Some env_clash
   \<and> buildEnvLookup [env_production, env_clash] ''e1'' = Some env_production
   \<and> env_clash \<noteq> env_production
   \<and> buildEnvToProjectMap [env_production, env_clash] ''10'' = Some ''2''
   \<and> buildEnvToProjectMap [env_production, env_clash] ''e1'' = Some ''1''"
  by (simp add: build_defs eval_defs env_orphan_def env_production_def env_clash_def)

text \<open>
  C4. The resource URL resolver returns undefined whenever any of the project,
  environment and resource UUIDs is missing (absent, or the empty string), and otherwise
  exactly the instance URL with its trailing slashes stripped, followed by
  /project/{projectUuid}/environment/{environmentUuid}/{type}/{resourceUuid}. The
  console-logs builder (.../application/{uuid}/logs) and the deployment builder
  (.../application/{uuid}/deployment/{deploymentUuid}) follow the same all-or-nothing rule
  on the UUIDs they need. The stripped base is the instance URL without its final run of
  slashes: it does not end with a slash, and the instance URL is the base followed by
  slashes only.
\<close>

theorem url_builders_all_or_nothing:
  "(resolveResourceUrl instanceUrl projectUuid' environmentUuid resourceUuid type = None
      \<longleftrightarrow> \<not> truthy_str projectUuid' \<or> \<not> truthy_str environmentUuid \<or> \<not> truthy_str resourceUuid)
   \<and> (buildCoolifyLogsUrl instanceUrl projectUuid' environmentUuid applicationUuid = None
      \<longleftrightarrow> \<not> truthy_str projectUuid' \<or> \<not> truthy_str environmentUuid \<or> \<not> truthy_str applicationUuid)
   \<and> (buildCoolifyDeploymentUrl instanceUrl projectUuid' environmentUuid applicationUuid
         deploymentUuid = None
      \<longleftrightarrow> \<not> truthy_str projectUuid' \<or> \<not> truthy_str environmentUuid
          \<or> \<not> truthy_str applicationUuid \<or> \<not> truthy_str deploymentUuid)
   \<and> (p \<noteq> [] \<and> e \<noteq> [] \<and> r \<noteq> [] \<longrightarrow>
        resolveResourceUrl instanceUrl (Some p) (Some e) (Some r) type
          = Some (rev (dropWhile is_slash (rev instanceUrl)) @ ''/project/'' @ p @ ''/environment/'' @ e @ ''/'' @ type_name type
                  @ ''/'' @ r)
        \<and> buildCoolifyLogsUrl instanceUrl (Some p) (Some e) (Some r)
          = Some (rev (dropWhile is_slash (rev instanceUrl)) @ ''/project/'' @ p @ ''/environment/'' @ e @ ''/application/'' @ r
                  @ ''/logs''))
   \<and> (p \<noteq> [] \<and> e \<noteq> [] \<and> r \<noteq> [] \<and> d \<noteq> [] \<longrightarrow>
        buildCoolifyDeploymentUrl instanceUrl (Some p) (Some e) (Some r) (Some d)
          = Some (rev (dropWhile is_slash (rev instanceUrl)) @ ''/project/'' @ p @ ''/environment/'' @ e @ ''/application/'' @ r
                  @ ''/deployment/'' @ d))
   \<and> (\<exists>n. instanceUrl = rev (dropWhile is_slash (rev instanceUrl)) @ replicate n (CHR ''/''))
   \<and> (rev (dropWhile is_slash (rev instanceUrl)) \<noteq> [] \<longrightarrow> last (rev (dropWhile is_slash (rev instanceUrl))) \<noteq> CHR ''/'')"
proof -
  have a: "resolveResourceUrl instanceUrl projectUuid' environmentUuid resourceUuid type = None
      \<longleftrightarrow> \<not> truthy_str projectUuid' \<or> \<not> truthy_str environmentUuid \<or> \<not> truthy_str resourceUuid"
    by (simp add: resolveResourceUrl_def Let_def)
  have b: "buildCoolifyLogsUrl instanceUrl projectUuid' environmentUuid applicationUuid = None
      \<longleftrightarrow> \<not> truthy_str projectUuid' \<or> \<not> truthy_str environmentUuid \<or> \<not> truthy_str applicationUuid"
    by (simp add: buildCoolifyLogsUrl_def Let_def)
  have c: "buildCoolifyDeploymentUrl instanceUrl projectUuid' environmentUuid applicationUuid
         deploymentUuid = None
      \<longleftrightarrow> \<not> truthy_str projectUuid' \<or> \<not> truthy_str environmentUuid
          \<or> \<not> truthy_str applicationUuid \<or> \<not> truthy_str deploymentUuid"
    by (simp add: buildCoolifyDeploymentUrl_def Let_def)
  have d1: "p \<noteq> [] \<and> e \<noteq> [] \<and> r \<noteq> [] \<longrightarrow>
        resolveResourceUrl instanceUrl (Some p) (Some e) (Some r) type
          = Some (rev (dropWhile is_slash (rev instanceUrl)) @ ''/project/'' @ p @ ''/environment/'' @ e @ ''/'' @ type_name type
                  @ ''/'' @ r)
        \<and> buildCoolifyLogsUrl instanceUrl (Some p) (Some e) (Some r)
          = Some (rev (dropWhile is_slash (rev instanceUrl)) @ ''/project/'' @ p @ ''/environment/'' @ e @ ''/application/'' @ r
                  @ ''/logs'')"
    by (simp add: resolveResourceUrl_def buildCoolifyLogsUrl_def Let_def strip_trailing_slashes_eq)
  have d2: "p \<noteq> [] \<and> e \<noteq> [] \<and> r \<noteq> [] \<and> d \<noteq> [] \<longrightarrow>
        buildCoolifyDeploymentUrl instanceUrl (Some p) (Some e) (Some r) (Some d)
          = Some (rev (dropWhile is_slash (rev instanceUrl)) @ ''/project/'' @ p @ ''/environment/'' @ e @ ''/application/'' @ r
                  @ ''/deployment/'' @ d)"
    by (simp add: buildCoolifyDeploymentUrl_def Let_def strip_trailing_slashes_eq)
  have e1: "\<exists>n. instanceUrl = rev (dropWhile is_slash (rev instanceUrl)) @ replicate n (CHR ''/'')"
    by (rule stripped_decompose)
  have e2: "rev (dropWhile is_slash (rev instanceUrl)) \<noteq> [] \<longrightarrow> last (rev (dropWhile is_slash (rev instanceUrl))) \<noteq> CHR ''/''"
  proof
    assume "rev (dropWhile is_slash (rev instanceUrl)) \<noteq> []"
    then have "\<not> is_slash (last (rev (dropWhile is_slash (rev instanceUrl))))" by (rule stripped_no_trailing_slash)
    then show "last (rev (dropWhile is_slash (rev instanceUrl))) \<noteq> CHR ''/''" by (simp add: is_slash_def)
  qed
  show ?thesis
    by (rule conjI [OF a conjI [OF b conjI [OF c conjI [OF d1 conjI [OF d2 conjI [OF e1 e2]]]]]])
qed

text \<open>
  The theorem at an instance URL with two trailing slashes, with all UUIDs present, with
  the environment UUID absent, and with an empty application UUID.
\<close>

theorem url_builders_all_or_nothing_witness:
  "resolveResourceUrl ''https://instance//'' (Some ''p1'') (Some ''e1'') (Some ''a1'') TApplication
     = Some ''https://instance/project/p1/environment/e1/application/a1''
   \<and> buildCoolifyLogsUrl ''https://instance//'' (Some ''p1'') (Some ''e1'') (Some ''a1'')
     = Some ''https://instance/project/p1/environment/e1/application/a1/logs''
   \<and> buildCoolifyDeploymentUrl ''https://instance//'' (Some ''p1'') (Some ''e1'') (Some ''a1'')
        (Some ''d1'')
     = Some ''https://instance/project/p1/environment/e1/application/a1/deployment/d1''
   \<and> resolveResourceUrl ''https://instance//'' (Some ''p1'') None (Some ''a1'') TApplication = None
   \<and> buildCoolifyLogsUrl ''https://instance//'' (Some ''p1'') (Some ''e1'') (Some []) = None"
proof -
  have s: "rev (dropWhile is_slash (rev ''https://instance//'')) = ''https://instance''"
    by (simp add: is_slash_def)
  note t = url_builders_all_or_nothing
    [where instanceUrl = "''https://instance//''" and p = "''p1''" and e = "''e1''"
       and r = "''a1''" and d = "''d1''" and type = TApplication]
  have n1: "resolveResourceUrl ''https://instance//'' (Some ''p1'') None (Some ''a1'') TApplication
            = None"
    using t [where projectUuid' = "Some ''p1''" and environmentUuid = None
               and resourceUuid = "Some ''a1''"] by simp
  have n2: "buildCoolifyLogsUrl ''https://instance//'' (Some ''p1'') (Some ''e1'') (Some []) = None"
    using t [where projectUuid' = "Some ''p1''" and environmentUuid = "Some ''e1''"
               and applicationUuid = "Some []"] by simp
  have y: "resolveResourceUrl ''https://instance//'' (Some ''p1'') (Some ''e1'') (Some ''a1'') TApplication
     = Some ''https://instance/project/p1/environment/e1/application/a1''
   \<and> buildCoolifyLogsUrl ''https://instance//'' (Some ''p1'') (Some ''e1'') (Some ''a1'')
     = Some ''https://instance/project/p1/environment/e1/application/a1/logs''
   \<and> buildCoolifyDeploymentUrl ''https://instance//'' (Some ''p1'') (Some ''e1'') (Some ''a1'')
        (Some ''d1'')
     = Some ''https://instance/project/p1/environment/e1/application/a1/deployment/d1''"
    using t by (simp add: is_slash_def)
  from y n1 n2 show ?thesis by simp
qed

text \<open>
  C5 (as amended). \<open>buildEnvNameToIdsMap\<close> gives the same map for every permutation of
  its input. The three key-overwriting builders (\<open>buildEnvToProjectMap\<close>,
  \<open>buildEnvNameMap\<close>, \<open>buildEnvLookup\<close>) give the same map for every permutation of an
  input in which no two different environments share a key. All four are idempotent:
  folding the same sequence a second time changes nothing. Where environments do share a
  key, in the three key-overwriting builders the later one in iteration order wins: the
  entry under a key is that of the last environment carrying it (for
  \<open>buildEnvToProjectMap\<close>, when that environment's project id resolves).
  \<open>buildEnvNameToIdsMap\<close> overwrites nothing: it maps each display name to the union of the
  keys of all environments of that name, so a shared key stays registered under the name
  of every environment that carries it.
\<close>

theorem builders_order_and_overwrite:
  "(mset envs' = mset envs \<longrightarrow> buildEnvNameToIdsMap envs' = buildEnvNameToIdsMap envs)
   \<and> (mset envs' = mset envs \<and> keys_unshared envs \<longrightarrow>
         buildEnvToProjectMap envs' = buildEnvToProjectMap envs
         \<and> buildEnvNameMap envs' = buildEnvNameMap envs
         \<and> buildEnvLookup envs' = buildEnvLookup envs)
   \<and> buildEnvToProjectMap (envs @ envs) = buildEnvToProjectMap envs
   \<and> buildEnvNameMap (envs @ envs) = buildEnvNameMap envs
   \<and> buildEnvLookup (envs @ envs) = buildEnvLookup envs
   \<and> buildEnvNameToIdsMap (envs @ envs) = buildEnvNameToIdsMap envs
   \<and> (k \<in> env_keys b \<and> (\<forall>e\<in>set post. k \<notin> env_keys e) \<longrightarrow>
         buildEnvLookup (pre @ b # post) k = Some b
         \<and> buildEnvNameMap (pre @ b # post) k = Some (envDisplayName b)
         \<and> (envProjectId b \<noteq> None \<longrightarrow>
               buildEnvToProjectMap (pre @ b # post) k = envProjectId b))
   \<and> buildEnvNameToIdsMap envs n
       = (if ids_named envs n = {} then None else Some (ids_named envs n))
   \<and> (e \<in> set envs \<and> k \<in> env_keys e \<longrightarrow>
         (\<exists>s. buildEnvNameToIdsMap envs (envDisplayName e) = Some s \<and> k \<in> s))"
proof -
  have ids: "buildEnvNameToIdsMap envs' = buildEnvNameToIdsMap envs" if "mset envs' = mset envs"
  proof -
    from that have "set envs' = set envs" by (rule mset_eq_setD)
    then have "ids_named envs' = ids_named envs" by (rule ids_named_cong)
    then show ?thesis by (simp add: fun_eq_iff buildEnvNameToIdsMap_apply)
  qed
  have perm: "buildEnvToProjectMap envs' = buildEnvToProjectMap envs
         \<and> buildEnvNameMap envs' = buildEnvNameMap envs
         \<and> buildEnvLookup envs' = buildEnvLookup envs"
    if "mset envs' = mset envs \<and> keys_unshared envs"
  proof -
    from that have s: "set envs' = set envs" and u: "keys_unshared envs"
      by (auto dest: mset_eq_setD)
    have f: "find (\<lambda>e. k \<in> env_keys e \<and> Q e) (rev envs')
             = find (\<lambda>e. k \<in> env_keys e \<and> Q e) (rev envs)" for k Q
      using u s by (rule find_perm_unshared)
    have g: "find (\<lambda>e. k \<in> env_keys e) (rev envs') = find (\<lambda>e. k \<in> env_keys e) (rev envs)" for k
      using f [of k "\<lambda>e. True"] by simp
    show ?thesis
      by (simp add: fun_eq_iff buildEnvToProjectMap_apply buildEnvNameMap_apply
            buildEnvLookup_apply f g)
  qed
  have idem1: "buildEnvToProjectMap (envs @ envs) = buildEnvToProjectMap envs"
    by (simp only: fun_eq_iff buildEnvToProjectMap_apply find_twice) simp
  have idem2: "buildEnvNameMap (envs @ envs) = buildEnvNameMap envs"
    by (simp only: fun_eq_iff buildEnvNameMap_apply find_twice) simp
  have idem3: "buildEnvLookup (envs @ envs) = buildEnvLookup envs"
    by (simp only: fun_eq_iff buildEnvLookup_apply find_twice) simp
  have idem4: "buildEnvNameToIdsMap (envs @ envs) = buildEnvNameToIdsMap envs"
  proof -
    have "ids_named (envs @ envs) = ids_named envs" by (rule ids_named_cong) simp
    then show ?thesis by (simp add: fun_eq_iff buildEnvNameToIdsMap_apply)
  qed
  have last: "buildEnvLookup (pre @ b # post) k = Some b
         \<and> buildEnvNameMap (pre @ b # post) k = Some (envDisplayName b)
         \<and> (envProjectId b \<noteq> None \<longrightarrow>
               buildEnvToProjectMap (pre @ b # post) k = envProjectId b)"
    if h: "k \<in> env_keys b \<and> (\<forall>e\<in>set post. k \<notin> env_keys e)"
  proof -
    from h have kb: "k \<in> env_keys b" and np: "\<forall>e\<in>set post. \<not> k \<in> env_keys e" by auto
    from kb np have l: "find (\<lambda>e. k \<in> env_keys e) (rev (pre @ b # post)) = Some b"
      by (rule find_last_wins)
    have p: "find (\<lambda>e. k \<in> env_keys e \<and> envProjectId e \<noteq> None) (rev (pre @ b # post)) = Some b"
      if "envProjectId b \<noteq> None"
    proof (rule find_last_wins)
      show "k \<in> env_keys b \<and> envProjectId b \<noteq> None" using kb that by simp
      show "\<forall>e\<in>set post. \<not> (k \<in> env_keys e \<and> envProjectId e \<noteq> None)" using np by simp
    qed
    show ?thesis
      unfolding buildEnvLookup_apply buildEnvNameMap_apply buildEnvToProjectMap_apply
      using l p by simp
  qed
  have acc1: "buildEnvNameToIdsMap envs n
       = (if ids_named envs n = {} then None else Some (ids_named envs n))"
    by (rule buildEnvNameToIdsMap_apply)
  have acc2: "\<exists>s. buildEnvNameToIdsMap envs (envDisplayName e) = Some s \<and> k \<in> s"
    if h: "e \<in> set envs \<and> k \<in> env_keys e"
  proof -
    from h have "k \<in> ids_named envs (envDisplayName e)"
      by (auto simp: ids_named_def)
    then show ?thesis by (auto simp: buildEnvNameToIdsMap_apply)
  qed
  have first: "(mset envs' = mset envs \<longrightarrow> buildEnvNameToIdsMap envs' = buildEnvNameToIdsMap envs)
   \<and> (mset envs' = mset envs \<and> keys_unshared envs \<longrightarrow>
         buildEnvToProjectMap envs' = buildEnvToProjectMap envs
         \<and> buildEnvNameMap envs' = buildEnvNameMap envs
         \<and> buildEnvLookup envs' = buildEnvLookup envs)"
    using ids perm by blast
  have idem: "buildEnvToProjectMap (envs @ envs) = buildEnvToProjectMap envs
   \<and> buildEnvNameMap (envs @ envs) = buildEnvNameMap envs
   \<and> buildEnvLookup (envs @ envs) = buildEnvLookup envs
   \<and> buildEnvNameToIdsMap (envs @ envs) = buildEnvNameToIdsMap envs"
    using idem1 idem2 idem3 idem4 by simp
  have lastw: "k \<in> env_keys b \<and> (\<forall>e\<in>set post. k \<notin> env_keys e) \<longrightarrow>
         buildEnvLookup (pre @ b # post) k = Some b
         \<and> buildEnvNameMap (pre @ b # post) k = Some (envDisplayName b)
         \<and> (envProjectId b \<noteq> None \<longrightarrow>
               buildEnvToProjectMap (pre @ b # post) k = envProjectId b)"
    using last by blast
  have acc2': "e \<in> set envs \<and> k \<in> env_keys e \<longrightarrow>
         (\<exists>s. buildEnvNameToIdsMap envs (envDisplayName e) = Some s \<and> k \<in> s)"
    using acc2 by blast
  from first idem lastw acc1 acc2' show ?thesis
    by - (elim conjE, intro conjI, assumption+)
qed

text \<open>
  The theorem at production and staging in both orders, and at the sequence production,
  preview, staging, where preview repeats the id of production.
\<close>

theorem builders_order_and_overwrite_witness:
  "mset [env_staging, env_production] = mset [env_production, env_staging]
   \<and> keys_unshared [env_production, env_staging]
   \<and> buildEnvNameToIdsMap [env_staging, env_production]
       = buildEnvNameToIdsMap [env_production, env_staging]
   \<and> buildEnvToProjectMap [env_staging, env_production]
       = buildEnvToProjectMap [env_production, env_staging]
   \<and> buildEnvNameMap [env_staging, env_production] = buildEnvNameMap [env_production, env_staging]
   \<and> buildEnvLookup [env_staging, env_production] = buildEnvLookup [env_production, env_staging]
   \<and> ''10'' \<in> env_keys env_clash \<and> ''10'' \<notin> env_keys env_staging
   \<and> envProjectId env_clash \<noteq> None
   \<and> buildEnvLookup [env_production, env_clash, env_staging] ''10'' = Some env_clash
   \<and> buildEnvNameMap [env_production, env_clash, env_staging] ''10'' = Some ''preview''
   \<and> buildEnvToProjectMap [env_production, env_clash, env_staging] ''10'' = Some ''2''
   \<and> env_production \<in> set [env_production, env_clash, env_staging]
   \<and> envDisplayName env_production = ''production''
   \<and> ''10'' \<in> the (buildEnvNameToIdsMap [env_production, env_clash, env_staging] ''production'')
   \<and> ''10'' \<in> the (buildEnvNameToIdsMap [env_production, env_clash, env_staging] ''preview'')"
proof -
  have ks: "env_keys env_production = {''10'', ''e1''}" "env_keys env_staging = {''20'', ''e2''}"
    "env_keys env_clash = {''10'', ''e3''}"
    by (simp_all add: eval_defs env_production_def env_staging_def env_clash_def insert_commute)
  have ne: "env_production \<noteq> env_staging"
    by (simp add: env_production_def env_staging_def)
  have m: "mset [env_staging, env_production] = mset [env_production, env_staging]"
    by (simp add: add_mset_commute)
  have u: "keys_unshared [env_production, env_staging]"
    by (simp add: keys_unshared_def ks)
  have h: "''10'' \<in> env_keys env_clash \<and> (\<forall>e\<in>set [env_staging]. ''10'' \<notin> env_keys e)"
    by (simp add: ks)
  have p: "envProjectId env_clash = Some ''2''" "envDisplayName env_clash = ''preview''"
    by (simp_all add: eval_defs env_clash_def)
  note t = builders_order_and_overwrite
    [where envs' = "[env_staging, env_production]" and envs = "[env_production, env_staging]"
       and k = "''10''" and b = env_clash and pre = "[env_production]" and post = "[env_staging]"
       and n = "[]" and e = env_clash]
  have dn: "envDisplayName env_production = ''production''"
    by (simp add: eval_defs env_production_def)
  note w1 = builders_order_and_overwrite
    [where envs = "[env_production, env_clash, env_staging]" and envs' = "[]"
       and e = env_production and k = "''10''" and b = env_production and pre = "[]"
       and post = "[]" and n = "[]", THEN conjunct2, THEN conjunct2, THEN conjunct2, THEN conjunct2, THEN conjunct2, THEN conjunct2, THEN conjunct2, THEN conjunct2, THEN mp]
  note w2 = builders_order_and_overwrite
    [where envs = "[env_production, env_clash, env_staging]" and envs' = "[]"
       and e = env_clash and k = "''10''" and b = env_clash and pre = "[]"
       and post = "[]" and n = "[]", THEN conjunct2, THEN conjunct2, THEN conjunct2, THEN conjunct2, THEN conjunct2, THEN conjunct2, THEN conjunct2, THEN conjunct2, THEN mp]
  have a1: "\<exists>s. buildEnvNameToIdsMap [env_production, env_clash, env_staging]
                   (envDisplayName env_production) = Some s \<and> ''10'' \<in> s"
    by (rule w1) (simp add: ks)
  have a2: "\<exists>s. buildEnvNameToIdsMap [env_production, env_clash, env_staging]
                   (envDisplayName env_clash) = Some s \<and> ''10'' \<in> s"
    by (rule w2) (simp add: ks)
  have a3: "''10'' \<in> the (buildEnvNameToIdsMap [env_production, env_clash, env_staging] ''production'')"
    using a1 unfolding dn by (elim exE conjE) simp
  have a4: "''10'' \<in> the (buildEnvNameToIdsMap [env_production, env_clash, env_staging] ''preview'')"
    using a2 unfolding p by (elim exE conjE) simp
  note t7 = t [THEN conjunct2, THEN conjunct2, THEN conjunct2, THEN conjunct2, THEN conjunct2,
               THEN conjunct2, THEN conjunct1, THEN mp, OF h]
  have o: "buildEnvNameToIdsMap [env_staging, env_production]
       = buildEnvNameToIdsMap [env_production, env_staging]
   \<and> buildEnvToProjectMap [env_staging, env_production]
       = buildEnvToProjectMap [env_production, env_staging]
   \<and> buildEnvNameMap [env_staging, env_production] = buildEnvNameMap [env_production, env_staging]
   \<and> buildEnvLookup [env_staging, env_production] = buildEnvLookup [env_production, env_staging]"
    using t [THEN conjunct1, THEN mp, OF m]
      t [THEN conjunct2, THEN conjunct1, THEN mp, OF conjI [OF m u]] by simp
  have l: "buildEnvLookup [env_production, env_clash, env_staging] ''10'' = Some env_clash
   \<and> buildEnvNameMap [env_production, env_clash, env_staging] ''10'' = Some ''preview''
   \<and> buildEnvToProjectMap [env_production, env_clash, env_staging] ''10'' = Some ''2''"
    using t7 by (simp add: p)
  have h': "''10'' \<in> env_keys env_clash \<and> ''10'' \<notin> env_keys env_staging
            \<and> envProjectId env_clash \<noteq> None"
    by (simp add: ks p)
  from m u o h' l dn a3 a4 show ?thesis by simp
qed

text \<open>
  Order independence as first stated fails for the three key-overwriting builders: with
  two environments of the same normalized id, each order gives a different entry under
  that id. A later environment without a project id does not overwrite the project entry.
  And the later environment does not win in \<open>buildEnvNameToIdsMap\<close>: the shared id 10 stays
  registered under production after preview registers it too.
\<close>

theorem builders_order_counterexample:
  "mset [env_clash, env_production] = mset [env_production, env_clash]
   \<and> buildEnvNameMap [env_production, env_clash] ''10'' = Some ''preview''
   \<and> buildEnvNameMap [env_clash, env_production] ''10'' = Some ''production''
   \<and> buildEnvLookup [env_production, env_clash] ''10'' = Some env_clash
   \<and> buildEnvLookup [env_clash, env_production] ''10'' = Some env_production
   \<and> env_clash \<noteq> env_production
   \<and> buildEnvToProjectMap [env_production, env_clash] ''10'' = Some ''2''
   \<and> buildEnvToProjectMap [env_clash, env_production] ''10'' = Some ''1''
   \<and> buildEnvToProjectMap [env_production, env_orphan] ''10'' = Some ''1''
   \<and> envProjectId env_orphan = None
   \<and> buildEnvNameMap [env_clash, env_production] \<noteq> buildEnvNameMap [env_production, env_clash]
   \<and> buildEnvLookup [env_clash, env_production] \<noteq> buildEnvLookup [env_production, env_clash]
   \<and> buildEnvToProjectMap [env_clash, env_production]
        \<noteq> buildEnvToProjectMap [env_production, env_clash]
   \<and> buildEnvNameToIdsMap [env_production, env_clash] ''production'' = Some {''e1'', ''10''}
   \<and> buildEnvNameToIdsMap [env_production, env_clash] ''preview'' = Some {''e3'', ''10''}"
proof -
  have acc: "buildEnvNameToIdsMap [env_production, env_clash] ''production'' = Some {''e1'', ''10''}"
    "buildEnvNameToIdsMap [env_production, env_clash] ''preview'' = Some {''e3'', ''10''}"
    by (simp_all add: build_defs eval_defs env_production_def env_clash_def Let_def)
  have v: "buildEnvNameMap [env_production, env_clash] ''10'' = Some ''preview''"
    "buildEnvNameMap [env_clash, env_production] ''10'' = Some ''production''"
    "buildEnvLookup [env_production, env_clash] ''10'' = Some env_clash"
    "buildEnvLookup [env_clash, env_production] ''10'' = Some env_production"
    "env_clash \<noteq> env_production"
    "buildEnvToProjectMap [env_production, env_clash] ''10'' = Some ''2''"
    "buildEnvToProjectMap [env_clash, env_production] ''10'' = Some ''1''"
    "buildEnvToProjectMap [env_production, env_orphan] ''10'' = Some ''1''"
    "envProjectId env_orphan = None"
    by (simp_all add: build_defs eval_defs env_orphan_def env_production_def env_clash_def)
  have m: "mset [env_clash, env_production] = mset [env_production, env_clash]"
    by (simp add: add_mset_commute)
  have n1: "buildEnvNameMap [env_clash, env_production] \<noteq> buildEnvNameMap [env_production, env_clash]"
  proof
    assume "buildEnvNameMap [env_clash, env_production] = buildEnvNameMap [env_production, env_clash]"
    then have "buildEnvNameMap [env_clash, env_production] ''10''
               = buildEnvNameMap [env_production, env_clash] ''10''" by simp
    then show False by (simp add: v)
  qed
  have n2: "buildEnvLookup [env_clash, env_production] \<noteq> buildEnvLookup [env_production, env_clash]"
  proof
    assume "buildEnvLookup [env_clash, env_production] = buildEnvLookup [env_production, env_clash]"
    then have "buildEnvLookup [env_clash, env_production] ''10''
               = buildEnvLookup [env_production, env_clash] ''10''" by simp
    then show False using v(5) by (simp add: v(3,4))
  qed
  have n3: "buildEnvToProjectMap [env_clash, env_production]
            \<noteq> buildEnvToProjectMap [env_production, env_clash]"
  proof
    assume "buildEnvToProjectMap [env_clash, env_production]
            = buildEnvToProjectMap [env_production, env_clash]"
    then have "buildEnvToProjectMap [env_clash, env_production] ''10''
               = buildEnvToProjectMap [env_production, env_clash] ''10''" by simp
    then show False by (simp add: v)
  qed
  from v m n1 n2 n3 acc show ?thesis by simp
qed

text \<open>
  C6. Every element of the output of \<open>flattenEnvironments\<close> is to carry a projectName that
  is never absent ("Unnamed Project" when the project has no name), a projectId that
  prefers the project's own normalized id (project.id, falling back to project.uuid) and
  falls back to the environment's own project_id and project_uuid only when the project
  has neither, and the project's uuid as projectUuid. The code breaks the projectId part
  for a project whose id is a blank string: the project with id "" and uuid p1 has a
  uuid, yet its environment gets the project id 7 of its own project_id field, where
  \<open>fetchProjectEnvironments\<close> attaches p1 for the same project. For the project with id 1,
  uuid p1 and no name, both attach the project id 1, and the environment carries the
  default name and the uuid p1.
\<close>

theorem flattenEnvironments_blank_id:
  "proj_id project_blank_id = Str []
   \<and> proj_uuid project_blank_id = Some ''p1''
   \<and> map project_id (flattenEnvironments [project_blank_id]) = [Num 7]
   \<and> map projectId (flattenEnvironments [project_blank_id]) = [Some ''7'']
   \<and> fetchProjectEnvironments_projectId project_blank_id = Some ''p1''
   \<and> map projectId (flattenEnvironments [project_demo]) = [Some ''1'']
   \<and> fetchProjectEnvironments_projectId project_demo = Some ''1''
   \<and> map projectName (flattenEnvironments [project_demo]) = [Some ''Unnamed Project'']
   \<and> map projectUuid (flattenEnvironments [project_demo]) = [Some ''p1'']"
  by (simp add: flattenProject_def attachProject_def fetchProjectEnvironments_projectId_def
        project_blank_id_def project_demo_def eval_defs)

text \<open>
  C7. In each of its variants (unified resources, applications, services, databases,
  deployments), \<open>applyFilter\<close> with the selector "all" returns the list it was given,
  whatever the lookup maps.
\<close>

theorem applyFilter_all:
  "applyFilter_resources resources ''all'' envToProjectMap envNameToIds = resources
   \<and> applyFilter_applications applications ''all'' envToProjectMap hasEnvMapping envNameToIds
       = applications
   \<and> applyFilter_services services ''all'' envToProjectMap envNameToIds = services
   \<and> applyFilter_databases databases ''all'' envToProjectMap envNameToIds = databases
   \<and> applyFilter_deployments deployments ''all'' envToProjectMap envNameToIds appIdToEnvId
       = deployments"
  by (simp add: applyFilter_resources_def applyFilter_applications_def applyFilter_services_def
        applyFilter_databases_def applyFilter_deployments_def)

text \<open>
  C8 (as amended). With the selector "project:p", \<open>applyFilter\<close> returns exactly the
  sublist, in the original order, of the items whose resolved environment id maps to p in
  envToProjectMap: for unified resources, databases, services and deployments always, and
  for applications when hasEnvMapping is true. When hasEnvMapping is false the
  applications variant returns the whole list.
\<close>

theorem applyFilter_project:
  "applyFilter_resources resources (''project:'' @ p) envToProjectMap envNameToIds
     = filter (\<lambda>item. envToProjectMap (or_empty (environmentId item)) = Some p) resources
   \<and> applyFilter_databases databases (''project:'' @ p) envToProjectMap envNameToIds
     = filter (\<lambda>item. envToProjectMap (env_id_string (db_environment_id item)) = Some p) databases
   \<and> applyFilter_services services (''project:'' @ p) envToProjectMap envNameToIds
     = filter (\<lambda>item. envToProjectMap (env_id_string (svc_environment_id item)) = Some p) services
   \<and> applyFilter_deployments deployments (''project:'' @ p) envToProjectMap envNameToIds appIdToEnvId
     = filter (\<lambda>item. envToProjectMap (resolveEnvId item appIdToEnvId (resolveAppKey item)) = Some p)
         deployments
   \<and> applyFilter_applications applications (''project:'' @ p) envToProjectMap True envNameToIds
     = filter (\<lambda>item. envToProjectMap (env_id_string (app_environment_id item)) = Some p)
         applications
   \<and> applyFilter_applications applications (''project:'' @ p) envToProjectMap False envNameToIds
     = applications"
proof -
  have r: "remove_first ''project:'' (''project:'' @ p) = p" by (rule remove_first_append)
  show ?thesis
    unfolding applyFilter_resources_def applyFilter_applications_def applyFilter_services_def
      applyFilter_databases_def applyFilter_deployments_def r Let_def
    by simp
qed

text \<open>
  The theorem at the maps built from the environment production (id 10, project 1).
\<close>

theorem applyFilter_project_witness:
  "buildEnvToProjectMap [env_production] ''10'' = Some ''1''
   \<and> applyFilter_applications [app_web, app_by_uuid] ''project:1''
        (buildEnvToProjectMap [env_production]) True (buildEnvNameToIdsMap [env_production])
      = [app_web]
   \<and> applyFilter_databases [db_main, db_by_uuid] ''project:1''
        (buildEnvToProjectMap [env_production]) (buildEnvNameToIdsMap [env_production])
      = [db_main]
   \<and> applyFilter_databases [db_main, db_by_uuid] ''project:2''
        (buildEnvToProjectMap [env_production]) (buildEnvNameToIdsMap [env_production])
      = []"
proof -
  have m: "buildEnvToProjectMap [env_production] ''10'' = Some ''1''"
    "buildEnvToProjectMap [env_production] [] = None"
    by (simp_all add: build_defs eval_defs env_production_def)
  have k: "env_id_string (app_environment_id app_web) = ''10''"
    "env_id_string (app_environment_id app_by_uuid) = []"
    "env_id_string (db_environment_id db_main) = ''10''"
    "env_id_string (db_environment_id db_by_uuid) = []"
    by (simp_all add: env_id_string_def eval_defs app_web_def app_by_uuid_def db_main_def
          db_by_uuid_def)
  note t = applyFilter_project
    [where envToProjectMap = "buildEnvToProjectMap [env_production]"
       and envNameToIds = "buildEnvNameToIdsMap [env_production]"
       and applications = "[app_web, app_by_uuid]" and databases = "[db_main, db_by_uuid]"]
  have a: "applyFilter_applications [app_web, app_by_uuid] ''project:1''
        (buildEnvToProjectMap [env_production]) True (buildEnvNameToIdsMap [env_production])
      = [app_web]"
    using t [where p = "''1''"] by (simp add: m k)
  have b: "applyFilter_databases [db_main, db_by_uuid] ''project:1''
        (buildEnvToProjectMap [env_production]) (buildEnvNameToIdsMap [env_production])
      = [db_main]"
    using t [where p = "''1''"] by (simp add: m k)
  have c: "applyFilter_databases [db_main, db_by_uuid] ''project:2''
        (buildEnvToProjectMap [env_production]) (buildEnvNameToIdsMap [env_production])
      = []"
    using t [where p = "''2''"] by (simp add: m k)
  from m a b c show ?thesis by simp
qed

text \<open>
  As first stated the property fails for applications: with an empty environment map and
  hasEnvMapping false, no application maps to project 1, and the filter returns them all.
\<close>

theorem applyFilter_project_counterexample:
  "buildEnvToProjectMap [] (env_id_string (app_environment_id app_web)) = None
   \<and> applyFilter_applications [app_web] ''project:1'' (buildEnvToProjectMap []) False
        (buildEnvNameToIdsMap [])
      = [app_web]"
  by (simp add: applyFilter_applications_def buildEnvToProjectMap_def)

text \<open>
  C9 (as amended). \<open>getPrimaryUrl\<close> returns undefined when fqdn is absent or when the
  first comma-separated token of fqdn trims to the empty string; otherwise it returns the
  trimmed first token, unchanged when it starts with http:// or https://, and prefixed
  with https:// in every other case.
\<close>

theorem getPrimaryUrl_first_token:
  "getPrimaryUrl app =
     (case app_fqdn app of
        None \<Rightarrow> None
      | Some fqdn \<Rightarrow>
          (let token = trim (first_token fqdn)
           in if token = [] then None
              else if prefix ''http://'' token \<or> prefix ''https://'' token then Some token
              else Some (''https://'' @ token)))"
proof (cases "app_fqdn app")
  case None
  then show ?thesis by (simp add: getPrimaryUrl_def)
next
  case (Some fqdn)
  obtain ts where sp: "split_on CHR '','' fqdn = first_token fqdn # ts"
    unfolding first_token_def using split_on_first by blast
  have ft: "fqdn = [] \<Longrightarrow> trim (first_token fqdn) = []"
    by (simp add: first_token_def trim_def)
  show ?thesis
  proof (cases "fqdn = []")
    case True
    then show ?thesis using Some ft by (simp add: getPrimaryUrl_def Let_def)
  next
    case False
    then show ?thesis using Some sp by (simp add: getPrimaryUrl_def Let_def)
  qed
qed

text \<open>
  The theorem at an application with the fqdn web.example.com and at one without fqdn.
\<close>

theorem getPrimaryUrl_first_token_witness:
  "getPrimaryUrl app_web = Some ''https://web.example.com''
   \<and> getPrimaryUrl app_by_uuid = None"
proof -
  have t: "trim (first_token ''web.example.com'') = ''web.example.com''"
    by (simp add: first_token_def trim_def is_ws_def)
  have a: "getPrimaryUrl app_web = Some ''https://web.example.com''"
    using getPrimaryUrl_first_token [of app_web] by (simp add: app_web_def t)
  have b: "getPrimaryUrl app_by_uuid = None"
    using getPrimaryUrl_first_token [of app_by_uuid] by (simp add: app_by_uuid_def)
  from a b show ?thesis by simp
qed

text \<open>
  As first stated the property fails for a token that declares a scheme other than http
  and https: the token ftp://files.example.com is prefixed, not returned unchanged.
\<close>

theorem getPrimaryUrl_scheme_counterexample:
  "app_fqdn app_ftp = Some ''ftp://files.example.com, https://files.example.com''
   \<and> trim (first_token ''ftp://files.example.com, https://files.example.com'')
       = ''ftp://files.example.com''
   \<and> declares_scheme ''ftp://files.example.com''
   \<and> getPrimaryUrl app_ftp = Some ''https://ftp://files.example.com''
   \<and> getPrimaryUrl app_ftp \<noteq> Some ''ftp://files.example.com''"
  by (simp add: app_ftp_def getPrimaryUrl_def first_token_def trim_def is_ws_def
        declares_scheme_def is_scheme_char_def is_alpha_def)

text \<open>
  C10 (as amended). In the databases and applications filters, the "env:" and "project:"
  branches read an item's environment key from its environment_id alone, stringified, the
  empty string when it is undefined or null. With the maps the builders produce, an item
  whose environment_id is absent is therefore never included by "env:name", nor by
  "project:id" in the databases filter and in the applications filter when hasEnvMapping
  is true, whatever its environment_uuid and whether or not that uuid is registered.
\<close>

theorem per_type_filters_read_environment_id_only:
  "applyFilter_databases databases (''env:'' @ n) envToProjectMap envNameToIds
     = (case envNameToIds n of
          None \<Rightarrow> []
        | Some envIds \<Rightarrow>
            filter (\<lambda>item. env_id_string (db_environment_id item) \<in> envIds) databases)
   \<and> applyFilter_applications applications (''env:'' @ n) envToProjectMap hasEnvMapping envNameToIds
     = (case envNameToIds n of
          None \<Rightarrow> []
        | Some envIds \<Rightarrow>
            filter (\<lambda>item. env_id_string (app_environment_id item) \<in> envIds) applications)
   \<and> applyFilter_databases databases (''project:'' @ p) envToProjectMap envNameToIds
     = filter (\<lambda>item. envToProjectMap (env_id_string (db_environment_id item)) = Some p) databases
   \<and> applyFilter_applications applications (''project:'' @ p) envToProjectMap True envNameToIds
     = filter (\<lambda>item. envToProjectMap (env_id_string (app_environment_id item)) = Some p)
         applications
   \<and> (nullish v \<longrightarrow> env_id_string v = [])
   \<and> (nullish (db_environment_id d) \<longrightarrow>
      d \<notin> set (applyFilter_databases databases (''env:'' @ n)
                  (buildEnvToProjectMap envs) (buildEnvNameToIdsMap envs))
      \<and> d \<notin> set (applyFilter_databases databases (''project:'' @ p)
                  (buildEnvToProjectMap envs) (buildEnvNameToIdsMap envs)))
   \<and> (nullish (app_environment_id a) \<longrightarrow>
      a \<notin> set (applyFilter_applications applications (''env:'' @ n)
                  (buildEnvToProjectMap envs) hasEnvMapping (buildEnvNameToIdsMap envs))
      \<and> a \<notin> set (applyFilter_applications applications (''project:'' @ p)
                  (buildEnvToProjectMap envs) True (buildEnvNameToIdsMap envs)))"
proof -
  have r: "remove_first ''env:'' (''env:'' @ n) = n" "remove_first ''project:'' (''project:'' @ p) = p"
    by (rule remove_first_append)+
  have e1: "applyFilter_databases databases (''env:'' @ n) m ids
     = (case ids n of
          None \<Rightarrow> []
        | Some envIds \<Rightarrow>
            filter (\<lambda>item. env_id_string (db_environment_id item) \<in> envIds) databases)" for m ids
    unfolding applyFilter_databases_def r Let_def by simp
  have e2: "applyFilter_applications applications (''env:'' @ n) m hasEnvMapping ids
     = (case ids n of
          None \<Rightarrow> []
        | Some envIds \<Rightarrow>
            filter (\<lambda>item. env_id_string (app_environment_id item) \<in> envIds) applications)"
    for m ids
    unfolding applyFilter_applications_def r Let_def by simp
  have p1: "applyFilter_databases databases (''project:'' @ p) m ids
     = filter (\<lambda>item. m (env_id_string (db_environment_id item)) = Some p) databases" for m ids
    unfolding applyFilter_databases_def r Let_def by simp
  have p2: "applyFilter_applications applications (''project:'' @ p) m True ids
     = filter (\<lambda>item. m (env_id_string (app_environment_id item)) = Some p) applications"
    for m ids
    unfolding applyFilter_applications_def r Let_def by simp
  have z: "nullish v \<longrightarrow> env_id_string v = []"
    by (simp add: env_id_string_nullish)
  have d: "nullish (db_environment_id d) \<longrightarrow>
      d \<notin> set (applyFilter_databases databases (''env:'' @ n)
                  (buildEnvToProjectMap envs) (buildEnvNameToIdsMap envs))
      \<and> d \<notin> set (applyFilter_databases databases (''project:'' @ p)
                  (buildEnvToProjectMap envs) (buildEnvNameToIdsMap envs))"
    unfolding e1 p1
    by (auto simp: env_id_string_nullish envToProjectMap_empty_key split: option.splits
          dest: envNameToIds_empty_member [OF sym])
  have a: "nullish (app_environment_id a) \<longrightarrow>
      a \<notin> set (applyFilter_applications applications (''env:'' @ n)
                  (buildEnvToProjectMap envs) hasEnvMapping (buildEnvNameToIdsMap envs))
      \<and> a \<notin> set (applyFilter_applications applications (''project:'' @ p)
                  (buildEnvToProjectMap envs) True (buildEnvNameToIdsMap envs))"
    unfolding e2 p2
    by (auto simp: env_id_string_nullish envToProjectMap_empty_key split: option.splits
          dest: envNameToIds_empty_member [OF sym])
  show ?thesis
    by (rule conjI [OF e1 conjI [OF e2 conjI [OF p1 conjI [OF p2 conjI [OF z conjI [OF d a]]]]]])
qed

text \<open>
  The theorem at a database and an application that carry only the uuid e1, which the
  maps built from the environment production register.
\<close>

theorem per_type_filters_witness:
  "nullish (db_environment_id db_by_uuid) \<and> db_environment_uuid db_by_uuid = Some ''e1''
   \<and> nullish (app_environment_id app_by_uuid) \<and> app_environment_uuid app_by_uuid = Some ''e1''
   \<and> buildEnvToProjectMap [env_production] ''e1'' = Some ''1''
   \<and> ''e1'' \<in> the (buildEnvNameToIdsMap [env_production] ''production'')
   \<and> db_by_uuid \<notin> set (applyFilter_databases [db_main, db_by_uuid] ''env:production''
                  (buildEnvToProjectMap [env_production]) (buildEnvNameToIdsMap [env_production]))
   \<and> db_by_uuid \<notin> set (applyFilter_databases [db_main, db_by_uuid] ''project:1''
                  (buildEnvToProjectMap [env_production]) (buildEnvNameToIdsMap [env_production]))
   \<and> app_by_uuid \<notin> set (applyFilter_applications [app_web, app_by_uuid] ''env:production''
                  (buildEnvToProjectMap [env_production]) True
                  (buildEnvNameToIdsMap [env_production]))
   \<and> app_by_uuid \<notin> set (applyFilter_applications [app_web, app_by_uuid] ''project:1''
                  (buildEnvToProjectMap [env_production]) True
                  (buildEnvNameToIdsMap [env_production]))"
proof -
  have h: "nullish (db_environment_id db_by_uuid)" "db_environment_uuid db_by_uuid = Some ''e1''"
    "nullish (app_environment_id app_by_uuid)" "app_environment_uuid app_by_uuid = Some ''e1''"
    by (simp_all add: db_by_uuid_def app_by_uuid_def)
  have m: "buildEnvToProjectMap [env_production] ''e1'' = Some ''1''"
    "''e1'' \<in> the (buildEnvNameToIdsMap [env_production] ''production'')"
    by (simp_all add: build_defs eval_defs env_production_def)
  note t = per_type_filters_read_environment_id_only
    [where d = db_by_uuid and a = app_by_uuid and envs = "[env_production]"
       and n = "''production''" and p = "''1''" and hasEnvMapping = True
       and databases = "[db_main, db_by_uuid]" and applications = "[app_web, app_by_uuid]"
       and v = Undefined and envToProjectMap = "buildEnvToProjectMap [env_production]"
       and envNameToIds = "buildEnvNameToIdsMap [env_production]"]
  note c5 = t [THEN conjunct2, THEN conjunct2, THEN conjunct2, THEN conjunct2, THEN conjunct2]
  have d: "db_by_uuid \<notin> set (applyFilter_databases [db_main, db_by_uuid] ''env:production''
                  (buildEnvToProjectMap [env_production]) (buildEnvNameToIdsMap [env_production]))
      \<and> db_by_uuid \<notin> set (applyFilter_databases [db_main, db_by_uuid] ''project:1''
                  (buildEnvToProjectMap [env_production]) (buildEnvNameToIdsMap [env_production]))"
    using c5 [THEN conjunct1, THEN mp, OF h(1)] by simp
  have a: "app_by_uuid \<notin> set (applyFilter_applications [app_web, app_by_uuid] ''env:production''
                  (buildEnvToProjectMap [env_production]) True
                  (buildEnvNameToIdsMap [env_production]))
      \<and> app_by_uuid \<notin> set (applyFilter_applications [app_web, app_by_uuid] ''project:1''
                  (buildEnvToProjectMap [env_production]) True
                  (buildEnvNameToIdsMap [env_production]))"
    using c5 [THEN conjunct2, THEN mp, OF h(3)] by simp
  from d a h m show ?thesis by simp
qed

text \<open>
  As first stated the property fails in the applications filter when hasEnvMapping is
  false: the project branch returns every application, also one without environment_id.
\<close>

theorem per_type_filters_counterexample:
  "nullish (app_environment_id app_by_uuid)
   \<and> applyFilter_applications [app_by_uuid] ''project:1'' (buildEnvToProjectMap []) False
        (buildEnvNameToIdsMap [])
      = [app_by_uuid]"
  by (simp add: applyFilter_applications_def app_by_uuid_def)

end
